theory Spec2Isabelle
  imports Complex_Main
begin

section \<open>JavaScript values used by the chart code\<close>

text \<open>
  JavaScript numbers are modelled as \<^typ>\<open>real\<close>: \<open>NaN\<close>, the infinities and
  \<open>-0\<close> are not represented, and the rounding of double arithmetic is represented
  only in the geometry of \<open>draw\<close>, which takes it as a parameter. Where the code would go on with such a
  value, or with \<open>undefined\<close> in place of a number or a label, the model returns
  \<open>OutsideModel\<close> instead of a result. An exception is a value
  of \<open>js_error\<close> (\<open>ConfigError\<close> is the specification's name for the failure of an
  invalid configuration; the code under \<open>src\<close> throws plain \<open>Error\<close>s);
  \<open>console.warn\<close> appends to a list of lines.
\<close>

datatype js_error = Error string | TypeError string | RangeError string | ConfigError string

datatype 'a outcome = Raised js_error | OutsideModel | Done 'a

text \<open>Reading \<open>data[i]\<close>: \<open>None\<close> is JavaScript's \<open>undefined\<close>.\<close>

definition js_index :: "'a list \<Rightarrow> int \<Rightarrow> 'a option" where
  "js_index data i =
     (if 0 \<le> i \<and> i < int (length data) then Some (data ! nat i) else None)"

section \<open>utils/arrays\<close>

definition getPrevious :: "int \<Rightarrow> 'a list \<Rightarrow> 'a option" where
  "getPrevious index data = (if index \<le> 0 then js_index data 0 else js_index data (index - 1))"

definition getNext :: "int \<Rightarrow> 'a list \<Rightarrow> 'a option" where
  "getNext index data =
     (if index \<ge> int (length data) - 1 then js_index data (int (length data) - 1)
      else js_index data (index + 1))"

section \<open>BasicGraph._drawData: the control points of a cubic line\<close>

text \<open>
  \<open>interpolation.splineCurve\<close> is not among the source files; it is the parameter
  \<open>splineCurve\<close> (tension and graph folded in). It reads the coordinates of its three
  points, so an \<open>undefined\<close> point is a \<open>TypeError\<close>.
  The loop is \<open>for (let k = 1; k < points.length - 1; k++)\<close>.
\<close>

function controlPointsLoop ::
  "('p \<Rightarrow> 'p \<Rightarrow> 'p \<Rightarrow> 'c) \<Rightarrow> 'p list \<Rightarrow> int \<Rightarrow> 'c list \<Rightarrow> 'c list outcome" where
  "controlPointsLoop splineCurve points k controlPoints =
     (if k < int (length points) - 1 then
        (case (getPrevious k points, js_index points k, getNext k points) of
           (Some p, Some c, Some n) \<Rightarrow>
             controlPointsLoop splineCurve points (k + 1) (controlPoints @ [splineCurve p c n])
         | _ \<Rightarrow> Raised (TypeError ''Cannot read properties of undefined''))
      else Done controlPoints)"
  by pat_completeness auto
termination
  by (relation "measure (\<lambda>(s, points, k, cps). nat (int (length points) - k))") auto

definition computeControlPoints :: "('p \<Rightarrow> 'p \<Rightarrow> 'p \<Rightarrow> 'c) \<Rightarrow> 'p list \<Rightarrow> 'c list outcome" where
  "computeControlPoints splineCurve points = controlPointsLoop splineCurve points 1 []"

section \<open>utils/assert\<close>

text \<open>
  Of the configuration module (not among the source files) \<open>assert\<close> reads one
  flag. A call without a message prints \<open>undefined\<close> for it.
\<close>

record config =
  bypassOutOfBoundsDrawing :: bool

definition andThen :: "'a outcome \<Rightarrow> ('a \<Rightarrow> 'b outcome) \<Rightarrow> 'b outcome" where
  "andThen m f = (case m of Raised e \<Rightarrow> Raised e | OutsideModel \<Rightarrow> OutsideModel | Done x \<Rightarrow> f x)"

definition assert :: "config \<Rightarrow> bool \<Rightarrow> string \<Rightarrow> string list \<Rightarrow> string list outcome" where
  "assert cfg condition message console =
     (if \<not> condition then
        (let assertMessage = ''Assertion failed: '' @ message in
         if bypassOutOfBoundsDrawing cfg then Done (console @ [assertMessage])
         else Raised (Error assertMessage))
      else Done console)"

section \<open>core/drawing: the Drawer\<close>

text \<open>
  The canvas context is the record \<open>world\<close>: the style fields the Drawer writes,
  the calls it has received, and the console. The font string
  \<open>`${size}px ` + labelFont\<close> is kept as its two parts.
\<close>

record canvas =
  width :: real
  height :: real

datatype ctx_call =
    BeginPath | ClosePath | Fill | Stroke
  | Arc real real real real real
  | MoveTo real real
  | LineTo real real
  | FillText string real real
  | SetLineDash "real list"
  | StrokeRect real real real real
  | FillRect real real real real
  | BezierCurveTo real real real real real real
  | QuadraticCurveTo real real real real

record world =
  console :: "string list"
  lineWidth :: real
  strokeStyle :: string
  fillStyle :: string
  globalAlpha :: real
  textAlign :: string
  font :: "real \<times> string"
  calls :: "ctx_call list"

record Drawer =
  drawerCanvas :: canvas
  labelFont :: string


definition emit :: "ctx_call list \<Rightarrow> world \<Rightarrow> world" where
  "emit cs w = w\<lparr>calls := calls w @ cs\<rparr>"

definition Drawer_coordinateSafetyCheck ::
  "config \<Rightarrow> Drawer \<Rightarrow> real \<Rightarrow> real \<Rightarrow> string list \<Rightarrow> string list outcome" where
  "Drawer_coordinateSafetyCheck cfg d x y con =
     andThen (assert cfg (x \<ge> 0 \<and> x \<le> width (drawerCanvas d))
                ''Drawer request failed since x-coordinate is out of bounds'' con)
       (\<lambda>con1. assert cfg (y \<ge> 0 \<and> y \<le> height (drawerCanvas d))
                ''Drawer request failed since y-coordinate is out of bounds'' con1)"





definition Drawer_toTextMode :: "Drawer \<Rightarrow> real \<Rightarrow> string \<Rightarrow> string \<Rightarrow> world \<Rightarrow> world" where
  "Drawer_toTextMode d sz colour alignment w =
     w\<lparr>strokeStyle := colour, fillStyle := colour, globalAlpha := 1,
       textAlign := alignment, font := (sz, labelFont d)\<rparr>"

text \<open>\<open>alignment = None\<close> is an omitted argument: the default is \<open>"center"\<close>.\<close>

definition Drawer_text ::
  "config \<Rightarrow> Drawer \<Rightarrow> string \<Rightarrow> real \<Rightarrow> real \<Rightarrow> real \<Rightarrow> string \<Rightarrow> string option \<Rightarrow> world
     \<Rightarrow> world outcome" where
  "Drawer_text cfg d txt x y sz colour alignment w =
     andThen (Drawer_coordinateSafetyCheck cfg d x y (console w))
       (\<lambda>con.
          let oldColour = strokeStyle w;
              w1 = Drawer_toTextMode d sz colour
                     (case alignment of None \<Rightarrow> ''center'' | Some a \<Rightarrow> a) (w\<lparr>console := con\<rparr>);
              w2 = emit [FillText txt x y] w1
          in Done (w2\<lparr>strokeStyle := oldColour\<rparr>))"

section \<open>BasicGraph._drawData: drawing a cubic line\<close>

text \<open>
  The branch of \<open>_drawData\<close> for a line with cubic interpolation, from the plotted
  points on: the control points, the cubic segments between the interior points, and the
  two quadratic curves at the ends. Reading a coordinate of an \<open>undefined\<close> point or
  control point is a \<open>TypeError\<close>. The parameter \<open>curve\<close> is
  \<open>interpolation.splineCurve\<close> with the tension and the graph folded in, as in the
  control-point loop. The conversion of the data to points and the
  setting of the line style before the branch, and the circles drawn after it, use
  modules that are not among the source files and are not modelled.
\<close>

record point =
  point_x :: real
  point_y :: real

record controlPoint =
  cp_prev :: point
  cp_next :: point

text \<open>The loop \<open>for (let i = 1; i < points.length - 2; i++)\<close> of the cubic segments.\<close>

function bezierLoop :: "point list \<Rightarrow> controlPoint list \<Rightarrow> int \<Rightarrow> world \<Rightarrow> world outcome" where
  "bezierLoop points controlPoints i w =
     (if i < int (length points) - 2 then
        (case (js_index points i, js_index controlPoints (i - 1), js_index controlPoints i,
               js_index points (i + 1)) of
           (Some p, Some c0, Some c1, Some q) \<Rightarrow>
             bezierLoop points controlPoints (i + 1)
               (emit [BeginPath, MoveTo (point_x p) (point_y p),
                      BezierCurveTo (point_x (cp_next c0)) (point_y (cp_next c0))
                                    (point_x (cp_prev c1)) (point_y (cp_prev c1))
                                    (point_x q) (point_y q),
                      Stroke, ClosePath] w)
         | _ \<Rightarrow> Raised (TypeError ''Cannot read properties of undefined''))
      else Done w)"
  by pat_completeness auto
termination
  by (relation "measure (\<lambda>(points, cps, i, w). nat (int (length points) - i))") auto

declare bezierLoop.simps [simp del]

definition drawCubic :: "(point \<Rightarrow> point \<Rightarrow> point \<Rightarrow> controlPoint) \<Rightarrow> point list \<Rightarrow> world \<Rightarrow> world outcome" where
  "drawCubic curve points w =
     andThen (computeControlPoints curve points) (\<lambda>controlPoints.
     andThen (bezierLoop points controlPoints 1 w) (\<lambda>w1.
       case js_index points 0 of
         None \<Rightarrow> Raised (TypeError ''Cannot read properties of undefined'')
       | Some first \<Rightarrow>
       (case js_index controlPoints 0 of
         None \<Rightarrow> Raised (TypeError ''Cannot read properties of undefined'')
       | Some c0 \<Rightarrow>
       (case js_index points 1 of
         None \<Rightarrow> Raised (TypeError ''Cannot read properties of undefined'')
       | Some second \<Rightarrow>
       (let w2 = emit [BeginPath, MoveTo (point_x first) (point_y first),
                       QuadraticCurveTo (point_x (cp_prev c0)) (point_y (cp_prev c0))
                                        (point_x second) (point_y second),
                       Stroke, ClosePath] w1
        in case js_index points (int (length points) - 1) of
             None \<Rightarrow> Raised (TypeError ''Cannot read properties of undefined'')
           | Some final \<Rightarrow>
           (case js_index controlPoints (int (length controlPoints) - 1) of
             None \<Rightarrow> Raised (TypeError ''Cannot read properties of undefined'')
           | Some cl \<Rightarrow>
           (case js_index points (int (length points) - 2) of
             None \<Rightarrow> Raised (TypeError ''Cannot read properties of undefined'')
           | Some beforeFinal \<Rightarrow>
               Done (emit [BeginPath, MoveTo (point_x final) (point_y final),
                           QuadraticCurveTo (point_x (cp_next cl)) (point_y (cp_next cl))
                                            (point_x beforeFinal) (point_y beforeFinal),
                           Stroke, ClosePath] w2))))))))"

section \<open>utils/arrays: the helpers of the axis\<close>

text \<open>
  \<open>Array(max)\<close> raises a \<open>RangeError\<close> unless \<open>max\<close> is an integer from \<open>0\<close> to
  \<open>2^32 - 1\<close>.
\<close>

definition fillRange :: "real \<Rightarrow> nat list outcome" where
  "fillRange n =
     (if of_int \<lfloor>n\<rfloor> = n \<and> 0 \<le> n \<and> n < 2 ^ 32 then Done [0 ..< nat \<lfloor>n\<rfloor>]
      else Raised (RangeError ''Invalid array length''))"

definition negativeValues :: "real list \<Rightarrow> real list" where
  "negativeValues array = filter (\<lambda>v. v < 0) array"

definition positiveAndZeroValues :: "real list \<Rightarrow> real list" where
  "positiveAndZeroValues array = filter (\<lambda>v. v \<ge> 0) array"

text \<open>
  \<open>while (len--)\<close> walks the array from its last element to its first. The running
  maximum starts at \<open>-Infinity\<close>, which is \<open>None\<close> here.
\<close>

fun getMaxLoop :: "real list \<Rightarrow> nat \<Rightarrow> real option \<Rightarrow> real option" where
  "getMaxLoop arr 0 mx = mx"
| "getMaxLoop arr (Suc len) mx =
     getMaxLoop arr len
       (case mx of None \<Rightarrow> Some (arr ! len)
        | Some m \<Rightarrow> if arr ! len > m then Some (arr ! len) else Some m)"

definition getMax :: "real list \<Rightarrow> real option" where
  "getMax arr = getMaxLoop arr (length arr) None"

fun getMinMaxLoop :: "real list \<Rightarrow> nat \<Rightarrow> real \<times> real \<Rightarrow> real \<times> real" where
  "getMinMaxLoop arr 0 (mn, mx) = (mn, mx)"
| "getMinMaxLoop arr (Suc i) (mn, mx) =
     getMinMaxLoop arr i
       (if arr ! i < mn then arr ! i else mn, if arr ! i > mx then arr ! i else mx)"

text \<open>On the empty array \<open>arr[0]\<close> is \<open>undefined\<close> and so are both results: \<open>None\<close>.\<close>

definition getMinMax :: "real list \<Rightarrow> (real \<times> real) option" where
  "getMinMax arr =
     (case arr of [] \<Rightarrow> None | a # _ \<Rightarrow> Some (getMinMaxLoop arr (length arr) (a, a)))"

section \<open>core/scale: the Scale\<close>

text \<open>
  Modelled from the spec: the class \<open>Scale\<close> (core/scale) is not among the source
  files. The definitions below follow section 4.1 of the specification.
  The nice-number rounding of the raw step to \<open>{1,2,5,10} \<times> 10^k\<close> is the parameter
  \<open>niceNum\<close>, and the conversion of a number to its label is the parameter \<open>toStr\<close>;
  neither is computed on the reals. The derived field
  \<open>range\<close> is named by the specification and not defined there; it is left out, and
  with it the \<open>min\<close> and \<open>max\<close> of the Axis that are read from it. The labels are
  computed from the fields when they are asked for, which is what rebuilding them at
  every change of the step amounts to.
\<close>

record ScaleOptions =
  opt_min :: real
  opt_max :: real
  opt_tickCount :: real
  opt_minimumScaleStep :: "real option"
  opt_optimiseTicks :: "bool option"
  opt_isNegativeScale :: bool
  opt_startAtZero :: bool

record Scale =
  scale_min :: real
  scale_max :: real
  tickCount :: real
  isNegativeScale :: bool
  scaleStep :: real
  roundedMinimum :: real

text \<open>
  Modelled from the spec: the Scale after its step is known. With a step of zero the
  rounded minimum would be a division by zero.
\<close>

definition Scale_withStep :: "ScaleOptions \<Rightarrow> real \<Rightarrow> real \<Rightarrow> Scale outcome" where
  "Scale_withStep opts mx step =
     (if step = 0 \<and> \<not> opt_startAtZero opts then OutsideModel
      else Done \<lparr>scale_min = opt_min opts, scale_max = mx, tickCount = opt_tickCount opts,
                 isNegativeScale = opt_isNegativeScale opts, scaleStep = step,
                 roundedMinimum = (if opt_startAtZero opts then 0
                                   else of_int \<lfloor>opt_min opts / step\<rfloor> * step)\<rparr>)"

text \<open>
  Modelled from the spec: the constructor of Scale. A tick count that is not an integer
  greater than zero fails with a \<open>ConfigError\<close>. The degenerate extent
  \<open>max = min\<close> is treated as \<open>max = min + 1\<close> with the step
  \<open>minimumScaleStep ?? 1\<close>; otherwise the raw step \<open>(max - min) / tickCount\<close> is
  rounded by \<open>niceNum\<close> unless \<open>optimiseTicks\<close> is false, and \<open>minimumScaleStep\<close>
  is a floor on it.
\<close>

definition validTickCount :: "real \<Rightarrow> bool" where
  "validTickCount t \<longleftrightarrow> of_int \<lfloor>t\<rfloor> = t \<and> 0 < t"

definition Scale_new :: "(real \<Rightarrow> real) \<Rightarrow> ScaleOptions \<Rightarrow> Scale outcome" where
  "Scale_new niceNum opts =
     (if \<not> validTickCount (opt_tickCount opts) then
        Raised (ConfigError ''tickCount must be an integer greater than zero'')
      else if opt_max opts = opt_min opts then
        Scale_withStep opts (opt_min opts + 1)
          (case opt_minimumScaleStep opts of None \<Rightarrow> 1 | Some m \<Rightarrow> m)
      else
        (let raw = (opt_max opts - opt_min opts) / opt_tickCount opts;
             step0 = (if opt_optimiseTicks opts = Some False then raw else niceNum raw);
             step = (case opt_minimumScaleStep opts of None \<Rightarrow> step0 | Some m \<Rightarrow> max m step0)
         in Scale_withStep opts (opt_max opts) step))"

text \<open>Modelled from the spec: the accessors of Scale.\<close>

definition Scale_getScaleStep :: "Scale \<Rightarrow> real" where
  "Scale_getScaleStep s = scaleStep s"

definition Scale_getTickCount :: "Scale \<Rightarrow> real" where
  "Scale_getTickCount s = tickCount s"

definition Scale_setTickStep :: "real \<Rightarrow> Scale \<Rightarrow> Scale" where
  "Scale_setTickStep v s = s\<lparr>scaleStep := v\<rparr>"

text \<open>
  Modelled from the spec: the labels are the values \<open>roundedMinimum + i * step\<close> for
  the integers \<open>i\<close> of \<open>[0, tickCount]\<close>, as strings; a negative scale negates them
  and lists them descending toward zero. The two arguments that the Axis passes for its
  negative scale have no meaning given in the specification and are not modelled.
\<close>

definition Scale_values :: "Scale \<Rightarrow> real list" where
  "Scale_values s =
     map (\<lambda>i. roundedMinimum s + real i * scaleStep s) [0 ..< nat (\<lfloor>tickCount s\<rfloor> + 1)]"

definition Scale_getScaleLabels :: "(real \<Rightarrow> string) \<Rightarrow> Scale \<Rightarrow> string list" where
  "Scale_getScaleLabels toStr s =
     (if isNegativeScale s then rev (map (\<lambda>v. toStr (- v)) (Scale_values s))
      else map toStr (Scale_values s))"

section \<open>core/axis: the Axis\<close>

text \<open>
  Of the axis manager (not among the source files) the Axis reads the data, the flag
  \<open>negativeScale\<close> and, through the graph, the length of the longest series.
\<close>

datatype AxisType = X_AXIS | Y_AXIS | OtherAxis string

fun typeName :: "AxisType \<Rightarrow> string" where
  "typeName X_AXIS = ''x-axis''"
| "typeName Y_AXIS = ''y-axis''"
| "typeName (OtherAxis s) = s"

record AxisOptions =
  ticks :: real
  optimiseTicks :: "bool option"
  tickLabels :: "string list option"
  drawLabels :: bool

record AxisManager =
  manager_data :: "real list"
  manager_negativeScale :: bool
  manager_maxLen :: nat

record Axis =
  axisType :: AxisType
  axisOptions :: AxisOptions
  axisScaleStep :: real
  positveScale :: "Scale option"
  negativeScale :: "Scale option"
  start :: "real option"
  scaleLabels :: "string list"

text \<open>The two Scales of a Y axis, as \<open>_computeAxisScale\<close> builds them.\<close>

definition Axis_newNegativeScale :: "(real \<Rightarrow> real) \<Rightarrow> AxisManager \<Rightarrow> AxisOptions \<Rightarrow> Scale outcome" where
  "Axis_newNegativeScale niceNum mgr opts =
     (let negativeDataSet = map abs (negativeValues (manager_data mgr)) in
      case getMax negativeDataSet of
        None \<Rightarrow> OutsideModel
      | Some m \<Rightarrow>
          Scale_new niceNum
            \<lparr>opt_min = 0, opt_max = m, opt_tickCount = ticks opts / 2,
             opt_minimumScaleStep = None, opt_optimiseTicks = None,
             opt_isNegativeScale = True, opt_startAtZero = False\<rparr>)"

definition Axis_newPositiveScale :: "(real \<Rightarrow> real) \<Rightarrow> AxisManager \<Rightarrow> AxisOptions \<Rightarrow> Scale outcome" where
  "Axis_newPositiveScale niceNum mgr opts =
     (let positiveValues = positiveAndZeroValues (manager_data mgr) in
      case getMinMax positiveValues of
        None \<Rightarrow> OutsideModel
      | Some (mn, mx) \<Rightarrow>
          Scale_new niceNum
            \<lparr>opt_min = mn, opt_max = mx,
             opt_tickCount = (if manager_negativeScale mgr then ticks opts / 2 else ticks opts),
             opt_minimumScaleStep = None, opt_optimiseTicks = None,
             opt_isNegativeScale = False, opt_startAtZero = False\<rparr>)"

definition Axis_computeAxisScale :: "(real \<Rightarrow> real) \<Rightarrow> AxisManager \<Rightarrow> Axis \<Rightarrow> Axis outcome" where
  "Axis_computeAxisScale niceNum mgr ax =
     (case axisType ax of
        X_AXIS \<Rightarrow>
          andThen (Scale_new niceNum
                     \<lparr>opt_min = 0, opt_max = real (manager_maxLen mgr) - 1,
                      opt_tickCount = ticks (axisOptions ax) - 1,
                      opt_minimumScaleStep = Some 1,
                      opt_optimiseTicks = optimiseTicks (axisOptions ax),
                      opt_isNegativeScale = False, opt_startAtZero = False\<rparr>)
            (\<lambda>p. Done (ax\<lparr>positveScale := Some p, axisScaleStep := Scale_getScaleStep p\<rparr>))
      | Y_AXIS \<Rightarrow>
          (if manager_negativeScale mgr then
             andThen (Axis_newNegativeScale niceNum mgr (axisOptions ax)) (\<lambda>n.
             andThen (Axis_newPositiveScale niceNum mgr (axisOptions ax)) (\<lambda>p.
               let step = max (Scale_getScaleStep p) (Scale_getScaleStep n) in
               Done (ax\<lparr>axisScaleStep := step,
                        positveScale := Some (Scale_setTickStep step p),
                        negativeScale := Some (Scale_setTickStep step n),
                        start := Some 0\<rparr>)))
           else
             andThen (Axis_newPositiveScale niceNum mgr (axisOptions ax)) (\<lambda>p.
               Done (ax\<lparr>positveScale := Some p,
                        axisScaleStep := Scale_getScaleStep p,
                        start := Some (roundedMinimum p)\<rparr>)))
      | OtherAxis s \<Rightarrow> Raised (Error (''Graphika: Unrecognised Axis type '' @ [CHR 0x27] @ s @ [CHR 0x27])))"

text \<open>
  \<open>generateScaleNumbers\<close>. A Scale that is still \<open>null\<close> is a \<open>TypeError\<close> at the
  call of its method. With an empty \<open>tickLabels\<close> that only drew a warning, every
  label would be \<open>undefined\<close>.
\<close>

definition Axis_generateScaleNumbers ::
  "(real \<Rightarrow> string) \<Rightarrow> config \<Rightarrow> AxisManager \<Rightarrow> Axis \<Rightarrow> string list \<Rightarrow> (string list \<times> Axis) outcome" where
  "Axis_generateScaleNumbers toStr cfg mgr ax con =
     (case positveScale ax of
        None \<Rightarrow> Raised (TypeError ''Cannot read properties of null'')
      | Some p \<Rightarrow>
        if axisType ax = X_AXIS then
          (case tickLabels (axisOptions ax) of
             Some labels \<Rightarrow>
               if drawLabels (axisOptions ax) then
                 andThen (assert cfg (length labels > 0) ''undefined'' con) (\<lambda>con1.
                   if labels = [] then OutsideModel
                   else Done (con1,
                     ax\<lparr>scaleLabels :=
                          map (\<lambda>index. labels ! (index mod length labels))
                              [0 ..< length (Scale_getScaleLabels toStr p)]\<rparr>))
               else
                 andThen (fillRange (Scale_getTickCount p + 1)) (\<lambda>r.
                   Done (con, ax\<lparr>scaleLabels := map (\<lambda>x. toStr (scaleStep p * real x)) r\<rparr>))
           | None \<Rightarrow>
               andThen (fillRange (Scale_getTickCount p + 1)) (\<lambda>r.
                 Done (con, ax\<lparr>scaleLabels := map (\<lambda>x. toStr (scaleStep p * real x)) r\<rparr>)))
        else if manager_negativeScale mgr then
          (case negativeScale ax of
             None \<Rightarrow> Raised (TypeError ''Cannot read properties of null'')
           | Some n \<Rightarrow>
               let labels0 = Scale_getScaleLabels toStr n;
                   labels1 = (if js_index labels0 (int (length labels0) - 1) = Some ''0''
                                 \<and> ''0'' \<in> set (Scale_getScaleLabels toStr p)
                              then butlast labels0 else labels0)
               in Done (con, ax\<lparr>scaleLabels := labels1 @ Scale_getScaleLabels toStr p\<rparr>))
        else Done (con, ax\<lparr>scaleLabels := Scale_getScaleLabels toStr p\<rparr>))"

text \<open>The constructor: the fields, the tick-count assertion, and the two steps.\<close>

definition Axis_init :: "AxisType \<Rightarrow> AxisOptions \<Rightarrow> Axis" where
  "Axis_init type opts =
     \<lparr>axisType = type, axisOptions = opts, axisScaleStep = 0, positveScale = None,
      negativeScale = None, start = None, scaleLabels = []\<rparr>"

definition Axis_build ::
  "(real \<Rightarrow> real) \<Rightarrow> (real \<Rightarrow> string) \<Rightarrow> config \<Rightarrow> AxisManager \<Rightarrow> AxisType \<Rightarrow> AxisOptions
     \<Rightarrow> string list \<Rightarrow> (string list \<times> Axis) outcome" where
  "Axis_build niceNum toStr cfg mgr type opts con =
     andThen (Axis_computeAxisScale niceNum mgr (Axis_init type opts))
       (\<lambda>ax. Axis_generateScaleNumbers toStr cfg mgr ax con)"

definition Axis_constructor ::
  "(real \<Rightarrow> real) \<Rightarrow> (real \<Rightarrow> string) \<Rightarrow> config \<Rightarrow> AxisManager \<Rightarrow> AxisType \<Rightarrow> AxisOptions
     \<Rightarrow> string list \<Rightarrow> (string list \<times> Axis) outcome" where
  "Axis_constructor niceNum toStr cfg mgr type opts con =
     andThen (assert cfg (ticks opts > 0)
                (typeName type @ '' cannot have zero or negative tick count'') con)
       (\<lambda>con1. Axis_build niceNum toStr cfg mgr type opts con1)"

text \<open>
  The specification's words for the joined labels of a split Y axis: the negative labels
  lose their last entry when that entry is \<open>"0"\<close> and the positive labels hold a \<open>"0"\<close>
  too. \<open>generateScaleNumbers\<close> is compared with it below.
\<close>

definition dedupZero :: "string list \<Rightarrow> string list \<Rightarrow> string list" where
  "dedupZero neg pos = (if neg \<noteq> [] \<and> last neg = ''0'' \<and> ''0'' \<in> set pos then butlast neg else neg)"

section \<open>BasicGraph: the grid geometry\<close>

text \<open>
  The fields of the graph that the grid geometry reads and writes. \<open>xLabelCount\<close> and
  \<open>yLabelCount\<close> are \<open>axisManager.xAxis.scaleLabels.length\<close> and its Y counterpart;
  \<open>titleDraw\<close>, \<open>titleFontSize\<close>, \<open>legendPosition\<close>, \<open>legendAlignment\<close> and
  \<open>debug\<close> are the options \<open>title.draw\<close>, \<open>title.fontSize\<close>, \<open>legend.position\<close>,
  \<open>legend.alignment\<close> (\<open>None\<close> when not given) and \<open>debug\<close>;
  the drawer's width and height are the canvas's. The text measurements behind the
  padding and the drawing calls of \<open>draw\<close> are not part of the geometry and are not
  modelled: the padding is taken as it is when the grid is computed.
\<close>

record padding =
  top_padding :: real
  left :: real
  right :: real
  bottom :: real
  textPadding :: real

record lengths =
  x_begin :: real
  y_begin :: real
  x_end :: real
  y_end :: real
  x_center :: real
  y_center :: real

record gridRectSize =
  grid_x :: real
  grid_y :: real

record gridOptions =
  gridded :: bool
  strict :: bool
  optimiseSquareSize :: bool
  sharedAxisZero :: bool

record graph =
  graphCanvas :: canvas
  graphPadding :: padding
  labelFontSize :: real
  grid :: gridOptions
  titleDraw :: bool
  titleFontSize :: real
  legendPosition :: "string option"
  legendAlignment :: "string option"
  debug :: bool
  xLabelCount :: nat
  yLabelCount :: nat
  xLength :: real
  yLength :: real
  graphGridRectSize :: gridRectSize
  graphLengths :: lengths

definition calculateLengths :: "graph \<Rightarrow> graph" where
  "calculateLengths g =
     (let p = graphPadding g;
          xLen = width (graphCanvas g) - (right p + left p + labelFontSize g);
          yLen = height (graphCanvas g) - (top_padding p + bottom p + labelFontSize g)
      in g\<lparr>xLength := xLen, yLength := yLen,
            graphLengths :=
              \<lparr>x_begin = left p + labelFontSize g,
               y_begin = top_padding p,
               x_end = width (graphCanvas g) - right p,
               y_end = height (graphCanvas g) - bottom p,
               x_center = left p + labelFontSize g + xLen / 2,
               y_center = top_padding p + labelFontSize g / 2 + yLen / 2\<rparr>\<rparr>)"

text \<open>
  The constructor after \<open>calculatePadding\<close>: the two lengths and the raw grid cell. With a
  single label on an axis the division is by zero.
\<close>

definition rawGridRectSize :: "graph \<Rightarrow> gridRectSize outcome" where
  "rawGridRectSize g =
     (let p = graphPadding g;
          xLen = width (graphCanvas g) - (right p + left p + labelFontSize g);
          yLen = height (graphCanvas g) - (top_padding p + bottom p)
      in if xLabelCount g = 1 \<or> yLabelCount g = 1 then OutsideModel
         else Done \<lparr>grid_x = xLen / (real (xLabelCount g) - 1),
                    grid_y = yLen / (real (yLabelCount g) - 1)\<rparr>)"

definition BasicGraph_constructGrid :: "graph \<Rightarrow> graph outcome" where
  "BasicGraph_constructGrid g =
     andThen (rawGridRectSize g) (\<lambda>raw.
       let p = graphPadding g;
           g1 = g\<lparr>xLength := width (graphCanvas g) - (right p + left p + labelFontSize g),
                   yLength := height (graphCanvas g) - (top_padding p + bottom p),
                   graphGridRectSize := raw\<rparr>;
           g2 = (if strict (grid g1) then
                   (let gridRectLength = min (grid_x (graphGridRectSize g1)) (grid_y (graphGridRectSize g1))
                    in g1\<lparr>graphGridRectSize := \<lparr>grid_x = gridRectLength, grid_y = gridRectLength\<rparr>\<rparr>)
                 else g1)
       in Done (calculateLengths g2))"

text \<open>
  The geometry of \<open>draw\<close>: the square-size optimisation, the lengths, and the Y length.
  \<open>Math.round\<close> rounds a half up, as \<^const>\<open>round\<close> does; \<open>x % 1 !== 0\<close> holds for
  the numbers that are not whole. The optimisation branches on the sign of a computed
  number, so its arithmetic is modelled as the code performs it: the parameter \<open>fl\<close> is
  the rounding of an exact result to the nearest double, and every subtraction, product
  and sum of the pass is wrapped in it. \<open>Math.round\<close>, the decrement of a whole number,
  the label count less one and the comparisons are exact.
\<close>

definition BasicGraph_drawGeometry :: "(real \<Rightarrow> real) \<Rightarrow> graph \<Rightarrow> graph" where
  "BasicGraph_drawGeometry fl g =
     (let g1 =
        (if optimiseSquareSize (grid g) \<and> frac (grid_x (graphGridRectSize g)) \<noteq> 0 then
           (let x0 = grid_x (graphGridRectSize g);
                preferred0 = of_int (round x0);
                numberOfSquares = real (xLabelCount g) - 1;
                preferredSquareSize =
                  (if preferred0 > x0
                      \<and> fl (right (graphPadding g) - fl (fl (preferred0 - x0) * numberOfSquares)) < 0
                   then preferred0 - 1 else preferred0);
                rect = (graphGridRectSize g)\<lparr>grid_x := preferredSquareSize\<rparr>;
                rect1 = (if strict (grid g) then rect\<lparr>grid_y := preferredSquareSize\<rparr> else rect);
                newRight = fl (width (graphCanvas g)
                             - fl (fl (grid_x rect1 * numberOfSquares) + x_begin (graphLengths g)));
                pad = (graphPadding g)\<lparr>right := newRight\<rparr>
            in g\<lparr>graphGridRectSize := rect1, graphPadding := pad,
                  xLength := fl (width (graphCanvas g)
                                  - fl (fl (right pad + left pad) + labelFontSize g))\<rparr>)
         else g);
          g2 = calculateLengths g1
      in g2\<lparr>yLength := fl ((real (yLabelCount g2) - 1) * grid_y (graphGridRectSize g2))\<rparr>)"

section \<open>legend/manager: the LegendManager\<close>

text \<open>
  The legend manager is the one that measures an entry as
  \<open>2 * PADDING + boxSize + width\<close>, with \<open>PADDING = 8\<close>. \<open>ctx.measureText\<close>, at the
  12px label font that \<open>getRequiredSpaceFor\<close> sets, is the parameter \<open>measureText\<close>.
  \<open>data = None\<close> is \<open>null\<close>. The colours read from the configuration and the colours
  modules (not among the source files) are the record \<open>palette\<close>.
\<close>

record legendItem =
  item_label :: string
  item_colour :: string
  item_style :: string

record palette =
  axisColour :: string
  PURPLE :: string

record LegendManager =
  legend_data :: "legendItem list option"
  legend_position :: string
  legend_alignment :: string
  boxSize :: real
  requiredSpace :: real

definition PADDING :: real where
  "PADDING = 8"

definition Pos_values :: "string list" where
  "Pos_values = [''left'', ''right'', ''top'', ''bottom'']"

definition Alignment_values :: "string list" where
  "Alignment_values = [''start'', ''center'', ''end'']"

text \<open>\<open>arr.reduce\<close> without an initial value raises on the empty array.\<close>

definition longest :: "string list \<Rightarrow> string outcome" where
  "longest arr =
     (case arr of
        [] \<Rightarrow> Raised (TypeError ''Reduce of empty array with no initial value'')
      | a # rest \<Rightarrow> Done (foldl (\<lambda>a b. if length a > length b then a else b) a rest))"

text \<open>
  Modelled from the spec: \<open>arrays.sum\<close> is not among the source files; the specification
  calls its result the summed per-entry spacing.
\<close>

definition arrays_sum :: "real list \<Rightarrow> real" where
  "arrays_sum xs = sum_list xs"

definition getRequiredSpaceFor :: "(string \<Rightarrow> real) \<Rightarrow> real \<Rightarrow> string \<Rightarrow> real" where
  "getRequiredSpaceFor measureText box item = 2 * PADDING + box + measureText item"

definition LegendManager_constructor ::
  "(string \<Rightarrow> real) \<Rightarrow> config \<Rightarrow> graph \<Rightarrow> legendItem list option \<Rightarrow> string list
     \<Rightarrow> (string list \<times> LegendManager) outcome" where
  "LegendManager_constructor measureText cfg g dat con =
     andThen (assert cfg (dat \<noteq> None) ''Legend data must not be null'' con) (\<lambda>con1.
       let position0 = (case legendPosition g of None \<Rightarrow> ''top'' | Some p \<Rightarrow> p);
           box = labelFontSize g + 4;
           position = (if position0 \<in> set Pos_values then position0 else ''top'');
           alignment0 = (case legendAlignment g of None \<Rightarrow> ''center'' | Some a \<Rightarrow> a);
           alignment = (if alignment0 \<in> set Alignment_values then alignment0 else ''center'');
           lm = \<lparr>legend_data = dat, legend_position = position, legend_alignment = alignment,
                 boxSize = box, requiredSpace = 0\<rparr>
       in if position = ''left'' \<or> position = ''right'' then
            (case dat of
               None \<Rightarrow> Raised (TypeError ''Cannot read properties of null'')
             | Some items \<Rightarrow>
                 andThen (longest (map item_label items)) (\<lambda>longestItem.
                   Done (con1, lm\<lparr>requiredSpace := getRequiredSpaceFor measureText box longestItem\<rparr>)))
          else Done (con1, lm\<lparr>requiredSpace := box + PADDING\<rparr>))"

definition LegendManager_drawLegend ::
  "config \<Rightarrow> Drawer \<Rightarrow> palette \<Rightarrow> graph \<Rightarrow> LegendManager \<Rightarrow> legendItem \<Rightarrow> real \<Rightarrow> real \<Rightarrow> world
     \<Rightarrow> world outcome" where
  "LegendManager_drawLegend cfg d pal g lm item x y w =
     (let w1 = w\<lparr>lineWidth := 1, strokeStyle := item_colour item, fillStyle := item_colour item\<rparr>;
          w2 = emit [SetLineDash (if item_style item = ''dashed'' then [4, 4] else []),
                     StrokeRect x y (boxSize lm) (boxSize lm)] w1;
          w3 = emit [FillRect x y (boxSize lm) (boxSize lm)] (w2\<lparr>globalAlpha := 0.6\<rparr>)
      in Drawer_text cfg d (item_label item) (x + boxSize lm + PADDING) (y + boxSize lm / 2)
           (labelFontSize g) (axisColour pal) (Some ''left'') w3)"

text \<open>
  The \<open>switch\<close> on the position: the orientation and the first offsets; \<open>None\<close> is its
  \<open>default\<close> branch.
\<close>

definition LegendManager_orientation :: "graph \<Rightarrow> LegendManager \<Rightarrow> (string \<times> real \<times> real) option" where
  "LegendManager_orientation g lm =
     (let xBegin = x_begin (graphLengths g);
          yBegin = PADDING + (if titleDraw g then titleFontSize g + textPadding (graphPadding g) else 0)
      in if legend_position lm = ''top'' then Some (''horizontal'', xBegin, yBegin)
         else if legend_position lm = ''bottom'' then
           Some (''horizontal'', xBegin,
                 height (graphCanvas g) - requiredSpace lm + textPadding (graphPadding g))
         else if legend_position lm = ''left'' then
           Some (''vertical'', PADDING, y_begin (graphLengths g))
         else if legend_position lm = ''right'' then
           Some (''vertical'', x_end (graphLengths g) + PADDING, y_begin (graphLengths g))
         else None)"

text \<open>The space of every entry, computed before any entry is placed.\<close>

definition LegendManager_requiredSpaces ::
  "(string \<Rightarrow> real) \<Rightarrow> LegendManager \<Rightarrow> string \<Rightarrow> legendItem list \<Rightarrow> real list" where
  "LegendManager_requiredSpaces measureText lm orientation items =
     map (\<lambda>index.
            let additional = (if int index \<noteq> int (length items) - 1 then PADDING else 0) in
            if orientation = ''horizontal''
            then getRequiredSpaceFor measureText (boxSize lm) (item_label (items ! index)) + additional
            else additional + boxSize lm)
         [0 ..< length items]"

text \<open>The offsets after the alignment. \<open>Math.round\<close> of half the length rounds up.\<close>

definition LegendManager_align ::
  "graph \<Rightarrow> LegendManager \<Rightarrow> string \<Rightarrow> real list \<Rightarrow> real \<times> real \<Rightarrow> real \<times> real" where
  "LegendManager_align g lm orientation requiredSpaces origin =
     (case origin of (xBegin, yBegin) \<Rightarrow>
        if orientation = ''horizontal'' then
          (if legend_alignment lm = ''start'' then (xBegin, yBegin)
           else if legend_alignment lm = ''center'' then
             (let offset = arrays_sum requiredSpaces / 2
              in (x_center (graphLengths g) - offset + PADDING, yBegin))
           else if legend_alignment lm = ''end'' then
             (let offset = arrays_sum requiredSpaces in (x_end (graphLengths g) - offset, yBegin))
           else (xBegin, yBegin))
        else
          (if legend_alignment lm = ''start'' then (xBegin, yBegin)
           else if legend_alignment lm = ''center'' then
             (let offset = arrays_sum (take ((length requiredSpaces + 1) div 2) requiredSpaces)
              in (xBegin, y_center (graphLengths g) - offset))
           else if legend_alignment lm = ''end'' then
             (let offset = arrays_sum requiredSpaces
              in (xBegin, y_begin (graphLengths g) + yLength g - offset))
           else (xBegin, yBegin)))"

definition LegendManager_debugBox ::
  "palette \<Rightarrow> graph \<Rightarrow> LegendManager \<Rightarrow> string \<Rightarrow> real list \<Rightarrow> real \<times> real \<Rightarrow> world \<Rightarrow> world" where
  "LegendManager_debugBox pal g lm orientation requiredSpaces origin w =
     (if debug g then
        (let lineWidth0 = lineWidth w;
             strokeStyle0 = strokeStyle w;
             w1 = w\<lparr>lineWidth := 2, strokeStyle := PURPLE pal\<rparr>;
             xLen = (if orientation = ''horizontal'' then arrays_sum requiredSpaces
                     else requiredSpace lm - PADDING);
             yLen = (if orientation = ''vertical'' then arrays_sum requiredSpaces
                     else requiredSpace lm - PADDING);
             w2 = emit [StrokeRect (fst origin) (snd origin) xLen yLen] w1
         in w2\<lparr>lineWidth := lineWidth0, strokeStyle := strokeStyle0\<rparr>)
      else w)"

text \<open>
  The loop over the entries; \<open>requiredSpaces\<close> has an element for every entry, so the two
  lists are walked together. The result carries the offsets after the last entry.
\<close>

fun LegendManager_drawEntries ::
  "config \<Rightarrow> Drawer \<Rightarrow> palette \<Rightarrow> graph \<Rightarrow> LegendManager \<Rightarrow> string
     \<Rightarrow> (legendItem \<times> real) list \<Rightarrow> real \<times> real \<Rightarrow> world \<Rightarrow> (world \<times> real \<times> real) outcome" where
  "LegendManager_drawEntries cfg d pal g lm orientation [] (xBegin, yBegin) w = Done (w, xBegin, yBegin)"
| "LegendManager_drawEntries cfg d pal g lm orientation ((item, space) # rest) (xBegin, yBegin) w =
     andThen (LegendManager_drawLegend cfg d pal g lm item xBegin yBegin w) (\<lambda>w1.
       if orientation = ''horizontal''
       then LegendManager_drawEntries cfg d pal g lm orientation rest (xBegin + space, yBegin) w1
       else LegendManager_drawEntries cfg d pal g lm orientation rest (xBegin, yBegin + space) w1)"

definition LegendManager_draw ::
  "(string \<Rightarrow> real) \<Rightarrow> config \<Rightarrow> Drawer \<Rightarrow> palette \<Rightarrow> graph \<Rightarrow> LegendManager \<Rightarrow> world
     \<Rightarrow> (world \<times> real \<times> real) outcome" where
  "LegendManager_draw measureText cfg d pal g lm w =
     (case LegendManager_orientation g lm of
        None \<Rightarrow>
          andThen (assert cfg False ''Invalid legend position'' (console w))
            (\<lambda>con. Done (w\<lparr>console := con\<rparr>, x_begin (graphLengths g),
                          PADDING + (if titleDraw g then titleFontSize g + textPadding (graphPadding g)
                                     else 0)))
      | Some (orientation, origin) \<Rightarrow>
          (case legend_data lm of
             None \<Rightarrow> Raised (TypeError ''Cannot read properties of null'')
           | Some items \<Rightarrow>
               let requiredSpaces = LegendManager_requiredSpaces measureText lm orientation items;
                   origin1 = LegendManager_align g lm orientation requiredSpaces origin;
                   w1 = LegendManager_debugBox pal g lm orientation requiredSpaces origin1 w
               in LegendManager_drawEntries cfg d pal g lm orientation
                    (zip items requiredSpaces) origin1 w1))"

section \<open>Worked inputs\<close>


definition emptyWorld :: world where
  "emptyWorld = \<lparr>console = [], lineWidth = 1, strokeStyle = ''black'', fillStyle = ''black'', globalAlpha = 1,
                 textAlign = ''start'', font = (10, ''sans-serif''), calls = []\<rparr>"

text \<open>
  The worked inputs take the identity for the nice-number rounding: their raw steps
  (1 and 2) are members of \<open>{1,2,5,10} \<times> 10^k\<close> already. A number is printed in decimal,
  with at most 17 digits after the point; on whole numbers this is JavaScript's string.
\<close>

definition niceFixed :: "real \<Rightarrow> real" where
  "niceFixed r = r"

function showNat :: "nat \<Rightarrow> string" where
  "showNat n = (if n < 10 then [''0123456789'' ! n] else showNat (n div 10) @ [''0123456789'' ! (n mod 10)])"
  by pat_completeness auto
termination
  by (relation "measure id") auto

fun fracDigits :: "nat \<Rightarrow> real \<Rightarrow> string" where
  "fracDigits 0 f = []"
| "fracDigits (Suc n) f =
     (if f = 0 then [] else ''0123456789'' ! nat \<lfloor>f * 10\<rfloor> # fracDigits n (frac (f * 10)))"

definition numToString :: "real \<Rightarrow> string" where
  "numToString r =
     (if r < 0 then ''-'' else []) @ showNat (nat \<lfloor>\<bar>r\<bar>\<rfloor>)
       @ (if frac \<bar>r\<bar> = 0 then [] else ''.'' @ fracDigits 17 (frac \<bar>r\<bar>))"

definition exampleManager :: AxisManager where
  "exampleManager = \<lparr>manager_data = [-5, -3, 10, 20], manager_negativeScale = True, manager_maxLen = 4\<rparr>"

definition exampleOptions :: AxisOptions where
  "exampleOptions = \<lparr>ticks = 10, optimiseTicks = Some True, tickLabels = None, drawLabels = True\<rparr>"

declare showNat.simps [simp del]

definition zeroTickOptions :: AxisOptions where
  "zeroTickOptions = \<lparr>ticks = 0, optimiseTicks = Some True, tickLabels = None, drawLabels = True\<rparr>"

definition defaultConfig :: config where
  "defaultConfig = \<lparr>bypassOutOfBoundsDrawing = False\<rparr>"

definition exampleYAxis :: Axis where
  "exampleYAxis =
     \<lparr>axisType = Y_AXIS, axisOptions = exampleOptions, axisScaleStep = 2,
      positveScale = Some \<lparr>scale_min = 10, scale_max = 20, tickCount = 5,
                           isNegativeScale = False, scaleStep = 2, roundedMinimum = 10\<rparr>,
      negativeScale = Some \<lparr>scale_min = 0, scale_max = 5, tickCount = 5,
                            isNegativeScale = True, scaleStep = 2, roundedMinimum = 0\<rparr>,
      start = Some 0,
      scaleLabels = [''-10'', ''-8'', ''-6'', ''-4'', ''-2'', ''0'',
                     ''10'', ''12'', ''14'', ''16'', ''18'', ''20'']\<rparr>"

definition exampleXOptions :: AxisOptions where
  "exampleXOptions = \<lparr>ticks = 4, optimiseTicks = Some True, tickLabels = None, drawLabels = True\<rparr>"

definition exampleXAxis :: Axis where
  "exampleXAxis =
     \<lparr>axisType = X_AXIS, axisOptions = exampleXOptions, axisScaleStep = 1,
      positveScale = Some \<lparr>scale_min = 0, scale_max = 3, tickCount = 3,
                           isNegativeScale = False, scaleStep = 1, roundedMinimum = 0\<rparr>,
      negativeScale = None, start = None,
      scaleLabels = [''0'', ''1'', ''2'', ''3'']\<rparr>"

definition exampleGraph :: graph where
  "exampleGraph =
     \<lparr>graphCanvas = \<lparr>width = 200, height = 150\<rparr>,
      graphPadding = \<lparr>top_padding = 30, left = 60, right = 5, bottom = 23, textPadding = 4\<rparr>,
      labelFontSize = 12,
      grid = \<lparr>gridded = True, strict = True, optimiseSquareSize = True, sharedAxisZero = True\<rparr>,
      titleDraw = True, titleFontSize = 24, legendPosition = Some ''top'',
      legendAlignment = Some ''start'', debug = False,
      xLabelCount = 11, yLabelCount = 11, xLength = 0, yLength = 0,
      graphGridRectSize = \<lparr>grid_x = 0, grid_y = 0\<rparr>,
      graphLengths = \<lparr>x_begin = 0, y_begin = 0, x_end = 0, y_end = 0, x_center = 0, y_center = 0\<rparr>\<rparr>"


text \<open>
  A graph with one pixel of right padding and eight squares on each axis, before and
  after its constructor has computed the grid. Every number of its draw pass is a binary
  fraction (9.75, 0.25, 2, -1), so every result is a double already and the rounding is
  the identity there.
\<close>

definition exactRounding :: "real \<Rightarrow> real" where
  "exactRounding r = r"

definition tightGraphInput :: graph where
  "tightGraphInput =
     exampleGraph\<lparr>graphCanvas := \<lparr>width = 151, height = 150\<rparr>,
                   graphPadding := \<lparr>top_padding = 30, left = 60, right = 1, bottom = 23, textPadding = 4\<rparr>,
                   grid := \<lparr>gridded = True, strict = False, optimiseSquareSize = True,
                            sharedAxisZero = True\<rparr>,
                   xLabelCount := 9, yLabelCount := 9\<rparr>"

definition tightGraph :: graph where
  "tightGraph =
     tightGraphInput\<lparr>xLength := 78, yLength := 85,
                      graphGridRectSize := \<lparr>grid_x = 39 / 4, grid_y = 97 / 8\<rparr>,
                      graphLengths := \<lparr>x_begin = 72, y_begin = 30, x_end = 150, y_end = 127,
                                       x_center = 111, y_center = 157 / 2\<rparr>\<rparr>"

definition monoWidth :: "string \<Rightarrow> real" where
  "monoWidth t = 7 * real (length t)"

definition graphDrawer :: Drawer where
  "graphDrawer = \<lparr>drawerCanvas = \<lparr>width = 200, height = 150\<rparr>, labelFont = ''monospace''\<rparr>"

definition examplePalette :: palette where
  "examplePalette = \<lparr>axisColour = ''grey'', PURPLE = ''purple''\<rparr>"

definition legendGraph :: graph where
  "legendGraph = calculateLengths exampleGraph"

definition exampleItems :: "legendItem list" where
  "exampleItems = [\<lparr>item_label = ''A'', item_colour = ''red'', item_style = ''solid''\<rparr>,
                   \<lparr>item_label = ''BB'', item_colour = ''blue'', item_style = ''dashed''\<rparr>]"

definition exampleLegend :: LegendManager where
  "exampleLegend = \<lparr>legend_data = Some exampleItems, legend_position = ''top'',
                     legend_alignment = ''start'', boxSize = 16, requiredSpace = 24\<rparr>"

section \<open>Properties of utils/arrays\<close>

lemma js_index_in_range:
  "0 \<le> i \<Longrightarrow> i < int (length data) \<Longrightarrow> js_index data i = Some (data ! nat i)"
  by (simp add: js_index_def)

lemma getPrevious_interior:
  "1 \<le> k \<Longrightarrow> k \<le> int (length data) \<Longrightarrow> getPrevious k data = Some (data ! nat (k - 1))"
  by (simp add: getPrevious_def js_index_def)

lemma getNext_interior:
  "-1 \<le> k \<Longrightarrow> k < int (length data) - 1 \<Longrightarrow> getNext k data = Some (data ! nat (k + 1))"
  by (simp add: getNext_def js_index_def)

text \<open>
  C10 (as amended). For a non-empty array, \<open>getPrevious\<close> returns \<open>data[0]\<close> for
  \<open>index \<le> 0\<close> and \<open>data[index - 1]\<close> otherwise, which is defined exactly up to
  \<open>index = data.length\<close>; \<open>getNext\<close> returns the last element for
  \<open>index \<ge> data.length - 1\<close> and \<open>data[index + 1]\<close> otherwise, which is defined
  exactly from \<open>index = -1\<close>. For every index \<open>k\<close> the spline loop uses
  (\<open>1 \<le> k \<le> data.length - 2\<close>) both neighbours are defined.
\<close>

theorem getPrevious_getNext_defined:
  assumes "data \<noteq> []"
  shows "getPrevious index data =
           (if index \<le> 0 then Some (data ! 0)
            else if index \<le> int (length data) then Some (data ! nat (index - 1))
            else None)
       \<and> getNext index data =
           (if index \<ge> int (length data) - 1 then Some (last data)
            else if index \<ge> -1 then Some (data ! nat (index + 1))
            else None)
       \<and> (1 \<le> index \<and> index \<le> int (length data) - 2 \<longrightarrow>
            getPrevious index data = Some (data ! nat (index - 1))
          \<and> getNext index data = Some (data ! nat (index + 1)))"
proof -
  from assms have len: "0 < length data" by simp
  have lastd: "data ! nat (int (length data) - 1) = last data"
  proof -
    have "nat (int (length data) - 1) = length data - 1" by linarith
    then show ?thesis using assms by (simp add: last_conv_nth)
  qed
  have p: "getPrevious index data =
           (if index \<le> 0 then Some (data ! 0)
            else if index \<le> int (length data) then Some (data ! nat (index - 1))
            else None)"
    using len by (simp add: getPrevious_def js_index_def)
  have n: "getNext index data =
           (if index \<ge> int (length data) - 1 then Some (last data)
            else if index \<ge> -1 then Some (data ! nat (index + 1))
            else None)"
    using len lastd by (simp add: getNext_def js_index_def)
  show ?thesis using p n by simp
qed

theorem getPrevious_getNext_defined_witness:
  "[10, 20, 30 :: int] \<noteq> []
   \<and> getPrevious 1 [10, 20, 30 :: int] = Some 10
   \<and> getNext 1 [10, 20, 30 :: int] = Some 30
   \<and> getPrevious 0 [10, 20, 30 :: int] = Some 10
   \<and> getNext 2 [10, 20, 30 :: int] = Some 30"
  using getPrevious_getNext_defined [of "[10, 20, 30 :: int]" 1]
        getPrevious_getNext_defined [of "[10, 20, 30 :: int]" 0]
        getPrevious_getNext_defined [of "[10, 20, 30 :: int]" 2]
  by simp

text \<open>
  C10 as stated fails: past the guarded end each function reads outside the array
  and returns \<open>undefined\<close>, although the array is not empty.
\<close>

theorem getPrevious_getNext_undefined_counterexample:
  "getPrevious 5 [10, 20, 30 :: int] = None \<and> getNext (-3) [10, 20, 30 :: int] = None"
  by (simp add: getPrevious_def getNext_def js_index_def)

section \<open>Properties of the control-point loop\<close>

lemma controlPointsLoop_eq:
  "1 \<le> k \<Longrightarrow>
   controlPointsLoop sc points k acc =
     Done (acc @ map (\<lambda>i. sc (points ! (i - 1)) (points ! i) (points ! (i + 1)))
                     [nat k ..< length points - 1])"
proof (induction sc points k acc rule: controlPointsLoop.induct)
  case (1 sc points k acc)
  show ?case
  proof (cases "k < int (length points) - 1")
    case False
    then have "[nat k ..< length points - 1] = []" by simp
    with False show ?thesis by (simp del: controlPointsLoop.simps add: controlPointsLoop.simps [of sc points k acc])
  next
    case True
    with "1.prems" have prev: "getPrevious k points = Some (points ! nat (k - 1))"
      by (intro getPrevious_interior) auto
    from True "1.prems" have cur: "js_index points k = Some (points ! nat k)"
      by (intro js_index_in_range) auto
    from True "1.prems" have nxt: "getNext k points = Some (points ! nat (k + 1))"
      by (intro getNext_interior) auto
    from True "1.prems" have lt: "nat k < length points - 1" by linarith
    have upt: "[nat k ..< length points - 1] = nat k # [nat (k + 1) ..< length points - 1]"
      using lt "1.prems" by (simp add: upt_conv_Cons nat_add_distrib)
    have km: "nat (k - 1) = nat k - 1" and kp: "nat (k + 1) = nat k + 1"
      using "1.prems" by (simp_all add: nat_diff_distrib nat_add_distrib)
    have IH: "controlPointsLoop sc points (k + 1)
                (acc @ [sc (points ! nat (k - 1)) (points ! nat k) (points ! nat (k + 1))]) =
              Done ((acc @ [sc (points ! nat (k - 1)) (points ! nat k) (points ! nat (k + 1))]) @
                    map (\<lambda>i. sc (points ! (i - 1)) (points ! i) (points ! (i + 1)))
                        [nat (k + 1) ..< length points - 1])"
      using "1.IH" [OF True refl prev refl cur nxt] "1.prems"
      by (simp del: controlPointsLoop.simps)
    show ?thesis
      using True prev cur nxt IH upt km kp
      by (simp del: controlPointsLoop.simps add: controlPointsLoop.simps [of sc points k acc])
  qed
qed

text \<open>
  The first loop alone: over \<open>N\<close> plotted points it returns a list of exactly \<open>N - 2\<close>
  control-point pairs when \<open>N \<ge> 3\<close>, the pair at position \<open>i - 1\<close> being the one
  computed at the interior point \<open>i\<close> (\<open>1 \<le> i \<le> N - 2\<close>) from its two neighbours, and
  the empty list when \<open>N < 3\<close>.
\<close>

lemma computeControlPoints_count:
  "(3 \<le> length points \<longrightarrow>
      (\<exists>cps. computeControlPoints sc points = Done cps
           \<and> length cps = length points - 2
           \<and> (\<forall>i. 1 \<le> i \<and> i \<le> length points - 2 \<longrightarrow>
                 cps ! (i - 1) = sc (points ! (i - 1)) (points ! i) (points ! (i + 1)))))
   \<and> (length points < 3 \<longrightarrow> computeControlPoints sc points = Done [])"
proof -
  have eq: "computeControlPoints sc points =
      Done (map (\<lambda>i. sc (points ! (i - 1)) (points ! i) (points ! (i + 1)))
                [1 ..< length points - 1])"
    unfolding computeControlPoints_def using controlPointsLoop_eq [of 1 sc points "[]"] by simp
  show ?thesis
  proof (intro conjI impI)
    assume "3 \<le> length points"
    show "\<exists>cps. computeControlPoints sc points = Done cps
           \<and> length cps = length points - 2
           \<and> (\<forall>i. 1 \<le> i \<and> i \<le> length points - 2 \<longrightarrow>
                 cps ! (i - 1) = sc (points ! (i - 1)) (points ! i) (points ! (i + 1)))"
      unfolding eq by (rule exI, intro conjI, rule refl) auto
  next
    assume "length points < 3"
    then have "[1 ..< length points - 1] = []" by simp
    then show "computeControlPoints sc points = Done []" unfolding eq by simp
  qed
qed

lemma computeControlPoints_count_example:
  "computeControlPoints (\<lambda>p c n. (c - (n - p), c + (n - p))) [1, 4, 9, 16 :: int]
     = Done [(-4, 12), (-3, 21)]
   \<and> computeControlPoints (\<lambda>p c n. (c - (n - p), c + (n - p))) [1, 4 :: int] = Done []"
proof -
  have a: "3 \<le> length [1, 4, 9, 16 :: int]" by simp
  have b: "length [1, 4 :: int] < 3" by simp
  from computeControlPoints_count [of "[1, 4, 9, 16 :: int]" "\<lambda>p c n. (c - (n - p), c + (n - p))"] a
  obtain cps where c: "computeControlPoints (\<lambda>p c n. (c - (n - p), c + (n - p))) [1, 4, 9, 16 :: int] = Done cps"
    and l: "length cps = 2"
    and i: "\<forall>i. 1 \<le> i \<and> i \<le> 2 \<longrightarrow> cps ! (i - 1) =
              ([1, 4, 9, 16 :: int] ! i - ([1, 4, 9, 16] ! (i + 1) - [1, 4, 9, 16] ! (i - 1)),
               [1, 4, 9, 16 :: int] ! i + ([1, 4, 9, 16] ! (i + 1) - [1, 4, 9, 16] ! (i - 1)))"
    by auto
  from i [rule_format, of 1] i [rule_format, of 2]
  have "cps ! 0 = (-4, 12)" "cps ! 1 = (-3, 21)" by simp_all
  with l have "cps = [(-4, 12), (-3, 21)]"
    by (cases cps; cases "tl cps"; cases "tl (tl cps)") auto
  with c computeControlPoints_count [of "[1, 4 :: int]" "\<lambda>p c n. (c - (n - p), c + (n - p))"] b
  show ?thesis by simp
qed

lemma bezierLoop_returns:
  "1 \<le> i \<Longrightarrow> length cps = length points - 2 \<Longrightarrow> \<exists>w'. bezierLoop points cps i w = Done w'"
proof (induction points cps i w rule: bezierLoop.induct)
  case (1 points cps i w)
  show ?case
  proof (cases "i < int (length points) - 2")
    case False
    then show ?thesis by (simp add: bezierLoop.simps [of points cps i w])
  next
    case True
    with "1.prems" have p: "js_index points i = Some (points ! nat i)"
      and q: "js_index points (i + 1) = Some (points ! nat (i + 1))"
      and c0: "js_index cps (i - 1) = Some (cps ! nat (i - 1))"
      and c1: "js_index cps i = Some (cps ! nat i)"
      by (auto simp: js_index_def)
    from "1.prems" have i1: "1 \<le> i + 1" by simp
    from "1.IH" [OF True refl p refl c0 refl c1 q i1 "1.prems"(2)] True p q c0 c1
    show ?thesis by (simp add: bezierLoop.simps [of points cps i w])
  qed
qed

text \<open>
  With three points or more the cubic branch draws and returns; with fewer than three it
  raises a \<open>TypeError\<close>: the control-point list is empty and the first quadratic curve
  reads \<open>controlPoints[0].prev\<close> (with no point at all, \<open>points[0].x\<close>).
\<close>

lemma drawCubic_returns:
  assumes "3 \<le> length points"
  shows "\<exists>w'. drawCubic curve points w = Done w'"
proof -
  from computeControlPoints_count [of points curve] assms obtain cps where
    c: "computeControlPoints curve points = Done cps" and l: "length cps = length points - 2"
    by blast
  from bezierLoop_returns [of 1 cps points w] l obtain w1 where
    b: "bezierLoop points cps 1 w = Done w1" by auto
  from assms l have r: "js_index points 0 = Some (points ! 0)" "js_index cps 0 = Some (cps ! 0)"
    "js_index points 1 = Some (points ! 1)"
    "js_index points (int (length points) - 1) = Some (points ! nat (int (length points) - 1))"
    "js_index cps (int (length cps) - 1) = Some (cps ! nat (int (length cps) - 1))"
    "js_index points (int (length points) - 2) = Some (points ! nat (int (length points) - 2))"
    by (auto simp: js_index_def)
  show ?thesis
    by (simp add: drawCubic_def c b r andThen_def Let_def)
qed

lemma drawCubic_short_raises:
  assumes "length points < 3"
  shows "drawCubic curve points w = Raised (TypeError ''Cannot read properties of undefined'')"
proof -
  from computeControlPoints_count [of points curve] assms
  have c: "computeControlPoints curve points = Done []" by blast
  from assms have b: "bezierLoop points [] 1 w = Done w"
    by (simp add: bezierLoop.simps [of points "[]" 1 w])
  have z: "js_index ([] :: controlPoint list) 0 = None" by (simp add: js_index_def)
  show ?thesis
    by (cases "js_index points 0") (simp_all add: drawCubic_def c b z andThen_def)
qed

text \<open>
  C2 (a defect of the code). A line of two points drawn with cubic interpolation: the
  control-point loop gives the empty list and the drawing that follows it in the same
  method raises a \<open>TypeError\<close>, where the claim says that no error is raised.
\<close>

theorem drawCubic_two_points_raises:
  "computeControlPoints curve
     [\<lparr>point_x = 10, point_y = 20\<rparr>, \<lparr>point_x = 30, point_y = 40\<rparr>] = Done []
   \<and> drawCubic curve
       [\<lparr>point_x = 10, point_y = 20\<rparr>, \<lparr>point_x = 30, point_y = 40\<rparr>] emptyWorld
     = Raised (TypeError ''Cannot read properties of undefined'')"
proof -
  have l: "length [\<lparr>point_x = 10, point_y = 20\<rparr>, \<lparr>point_x = 30, point_y = 40 :: real\<rparr>] < 3" by simp
  from computeControlPoints_count [of "[\<lparr>point_x = 10, point_y = 20\<rparr>, \<lparr>point_x = 30, point_y = 40\<rparr>]"
         curve] l
  have "computeControlPoints curve
     [\<lparr>point_x = 10, point_y = 20\<rparr>, \<lparr>point_x = 30, point_y = 40\<rparr>] = Done []" by blast
  with drawCubic_short_raises [OF l, of curve emptyWorld] show ?thesis by blast
qed

section \<open>Properties of the Drawer\<close>








section \<open>Properties of the Scale and the Axis\<close>

lemma showNat_small: "n < 10 \<Longrightarrow> showNat n = [''0123456789'' ! n]"
  by (simp add: showNat.simps)

lemma showNat_big: "\<not> n < 10 \<Longrightarrow> showNat n = showNat (n div 10) @ [''0123456789'' ! (n mod 10)]"
  by (subst showNat.simps) simp

lemma numToString_examples: "numToString 0 = ''0''" "numToString 10 = ''10''" "numToString (-8) = ''-8''" "numToString 120 = ''120''"
  by (simp_all add: numToString_def showNat_small showNat_big)


lemma andThen_Done: "andThen m f = Done y \<longleftrightarrow> (\<exists>x. m = Done x \<and> f x = Done y)"
  by (cases m) (simp_all add: andThen_def)

lemma Scale_withStep_Done:
  assumes "Scale_withStep opts mx step = Done s"
  shows "tickCount s = opt_tickCount opts" "isNegativeScale s = opt_isNegativeScale opts"
    "scaleStep s = step" "scale_min s = opt_min opts"
    "roundedMinimum s = (if opt_startAtZero opts then 0 else of_int \<lfloor>opt_min opts / step\<rfloor> * step)"
    "\<not> opt_startAtZero opts \<Longrightarrow> step \<noteq> 0"
  using assms by (auto simp: Scale_withStep_def split: if_splits)

lemma Scale_new_Done:
  assumes "Scale_new niceNum opts = Done s"
  shows "tickCount s = opt_tickCount opts" "isNegativeScale s = opt_isNegativeScale opts"
    "scale_min s = opt_min opts"
    "roundedMinimum s =
       (if opt_startAtZero opts then 0 else of_int \<lfloor>opt_min opts / scaleStep s\<rfloor> * scaleStep s)"
    "\<not> opt_startAtZero opts \<Longrightarrow> scaleStep s \<noteq> 0"
proof -
  from assms obtain mx step where w: "Scale_withStep opts mx step = Done s"
    by (auto simp: Scale_new_def Let_def split: if_splits)
  from Scale_withStep_Done [OF w]
  show "tickCount s = opt_tickCount opts" "isNegativeScale s = opt_isNegativeScale opts"
    "scale_min s = opt_min opts"
    "roundedMinimum s =
       (if opt_startAtZero opts then 0 else of_int \<lfloor>opt_min opts / scaleStep s\<rfloor> * scaleStep s)"
    "\<not> opt_startAtZero opts \<Longrightarrow> scaleStep s \<noteq> 0"
    by simp_all
qed

lemma Axis_newNegativeScale_Done:
  assumes "Axis_newNegativeScale niceNum mgr opts = Done n"
  shows "tickCount n = ticks opts / 2" "isNegativeScale n" "roundedMinimum n = 0" "scaleStep n \<noteq> 0"
proof -
  from assms obtain m where
    n: "Scale_new niceNum \<lparr>opt_min = 0, opt_max = m, opt_tickCount = ticks opts / 2,
             opt_minimumScaleStep = None, opt_optimiseTicks = None,
             opt_isNegativeScale = True, opt_startAtZero = False\<rparr> = Done n"
    by (auto simp: Axis_newNegativeScale_def Let_def split: option.splits)
  from Scale_new_Done [OF n]
  show "tickCount n = ticks opts / 2" "isNegativeScale n" "roundedMinimum n = 0" "scaleStep n \<noteq> 0"
    by simp_all
qed

lemma Axis_newPositiveScale_Done:
  assumes "Axis_newPositiveScale niceNum mgr opts = Done p"
  shows "tickCount p = (if manager_negativeScale mgr then ticks opts / 2 else ticks opts)"
    "\<not> isNegativeScale p" "scaleStep p \<noteq> 0"
proof -
  from assms obtain mn mx where
    p: "Scale_new niceNum \<lparr>opt_min = mn, opt_max = mx,
             opt_tickCount = (if manager_negativeScale mgr then ticks opts / 2 else ticks opts),
             opt_minimumScaleStep = None, opt_optimiseTicks = None,
             opt_isNegativeScale = False, opt_startAtZero = False\<rparr> = Done p"
    by (auto simp: Axis_newPositiveScale_def Let_def split: option.splits)
  from Scale_new_Done [OF p]
  show "tickCount p = (if manager_negativeScale mgr then ticks opts / 2 else ticks opts)"
    "\<not> isNegativeScale p" "scaleStep p \<noteq> 0"
    by simp_all
qed

lemma js_index_last: "js_index xs (int (length xs) - 1) = Some y \<longleftrightarrow> xs \<noteq> [] \<and> last xs = y"
proof (cases "xs = []")
  case True then show ?thesis by (simp add: js_index_def)
next
  case False
  then have "nat (int (length xs) - 1) = length xs - 1" by simp
  with False show ?thesis by (simp add: js_index_def last_conv_nth)
qed

lemma Axis_constructor_Done:
  "Axis_constructor niceNum toStr cfg mgr type opts con = Done r \<longleftrightarrow>
     (\<exists>con1. assert cfg (ticks opts > 0) (typeName type @ '' cannot have zero or negative tick count'') con = Done con1
            \<and> Axis_build niceNum toStr cfg mgr type opts con1 = Done r)"
  by (simp add: Axis_constructor_def andThen_Done)

lemma Axis_build_Y_split:
  assumes neg: "manager_negativeScale mgr"
    and b: "Axis_build niceNum toStr cfg mgr Y_AXIS opts con1 = Done (con', ax)"
  shows "\<exists>p0 n0. Axis_newPositiveScale niceNum mgr opts = Done p0
           \<and> Axis_newNegativeScale niceNum mgr opts = Done n0
           \<and> axisScaleStep ax = max (Scale_getScaleStep p0) (Scale_getScaleStep n0)
           \<and> positveScale ax = Some (Scale_setTickStep (axisScaleStep ax) p0)
           \<and> negativeScale ax = Some (Scale_setTickStep (axisScaleStep ax) n0)
           \<and> scaleLabels ax =
               dedupZero (Scale_getScaleLabels toStr (Scale_setTickStep (axisScaleStep ax) n0))
                         (Scale_getScaleLabels toStr (Scale_setTickStep (axisScaleStep ax) p0))
               @ Scale_getScaleLabels toStr (Scale_setTickStep (axisScaleStep ax) p0)
           \<and> con' = con1"
proof -
  from b obtain ax1 where c: "Axis_computeAxisScale niceNum mgr (Axis_init Y_AXIS opts) = Done ax1"
    and g: "Axis_generateScaleNumbers toStr cfg mgr ax1 con1 = Done (con', ax)"
    by (auto simp: Axis_build_def andThen_Done)
  from c neg obtain n0 p0 where n0: "Axis_newNegativeScale niceNum mgr opts = Done n0"
    and p0: "Axis_newPositiveScale niceNum mgr opts = Done p0"
    and ax1: "ax1 = (Axis_init Y_AXIS opts)\<lparr>axisScaleStep := max (Scale_getScaleStep p0) (Scale_getScaleStep n0),
                        positveScale := Some (Scale_setTickStep (max (Scale_getScaleStep p0) (Scale_getScaleStep n0)) p0),
                        negativeScale := Some (Scale_setTickStep (max (Scale_getScaleStep p0) (Scale_getScaleStep n0)) n0),
                        start := Some 0\<rparr>"
    by (auto simp: Axis_computeAxisScale_def Axis_init_def andThen_Done Let_def)
  from g neg show ?thesis
    unfolding ax1 using n0 p0
    by (auto simp: Axis_generateScaleNumbers_def Axis_init_def Let_def dedupZero_def js_index_last)
qed

text \<open>
  C1. A Y axis constructed while the manager reports negative values holds a positive
  and a negative Scale with the same step, and that step is the larger of the steps of the
  two Scales as they were built independently.
\<close>

theorem Axis_steps_synchronised:
  assumes "manager_negativeScale mgr"
    and "Axis_constructor niceNum toStr cfg mgr Y_AXIS opts con = Done (con', ax)"
  shows "\<exists>p n p0 n0. positveScale ax = Some p \<and> negativeScale ax = Some n
           \<and> Axis_newPositiveScale niceNum mgr opts = Done p0
           \<and> Axis_newNegativeScale niceNum mgr opts = Done n0
           \<and> Scale_getScaleStep p = Scale_getScaleStep n
           \<and> Scale_getScaleStep p = max (Scale_getScaleStep p0) (Scale_getScaleStep n0)
           \<and> axisScaleStep ax = Scale_getScaleStep p"
proof -
  from assms(2) obtain con1 where b: "Axis_build niceNum toStr cfg mgr Y_AXIS opts con1 = Done (con', ax)"
    by (auto simp: Axis_constructor_Done)
  from Axis_build_Y_split [OF assms(1) b] show ?thesis
    by (auto simp: Scale_getScaleStep_def Scale_setTickStep_def)
qed

lemma Scale_new_invalid:
  "\<not> validTickCount (opt_tickCount opts) \<Longrightarrow>
   Scale_new niceNum opts = Raised (ConfigError ''tickCount must be an integer greater than zero'')"
  by (simp add: Scale_new_def)

lemma Scale_new_valid: "Scale_new niceNum opts = Done s \<Longrightarrow> validTickCount (opt_tickCount opts)"
  by (auto simp: Scale_new_def split: if_splits)

lemma getMaxLoop_Some: "getMaxLoop arr n (Some m) \<noteq> None"
  by (induction n arbitrary: m) auto

lemma getMax_nonempty: "arr \<noteq> [] \<Longrightarrow> getMax arr \<noteq> None"
proof -
  assume "arr \<noteq> []"
  then obtain k where k: "length arr = Suc k" by (cases arr) auto
  show ?thesis unfolding getMax_def k by (simp add: getMaxLoop_Some)
qed

lemma getMinMax_nonempty: "arr \<noteq> [] \<Longrightarrow> getMinMax arr \<noteq> None"
  by (cases arr) (simp_all add: getMinMax_def)

lemma Axis_newNegativeScale_nonpositive:
  assumes t: "ticks opts \<le> 0"
  shows "Axis_newNegativeScale niceNum mgr opts \<noteq> Done n"
    and "\<exists>v \<in> set (manager_data mgr). v < 0 \<Longrightarrow>
         \<exists>m. Axis_newNegativeScale niceNum mgr opts = Raised (ConfigError m)"
proof -
  from t have inv: "\<not> validTickCount (ticks opts / 2)" by (simp add: validTickCount_def)
  show "Axis_newNegativeScale niceNum mgr opts \<noteq> Done n"
    using inv by (simp add: Axis_newNegativeScale_def Scale_new_invalid split: option.splits)
  assume "\<exists>v \<in> set (manager_data mgr). v < 0"
  then have "map abs (negativeValues (manager_data mgr)) \<noteq> []"
    by (auto simp: negativeValues_def filter_empty_conv)
  from getMax_nonempty [OF this] inv
  show "\<exists>m. Axis_newNegativeScale niceNum mgr opts = Raised (ConfigError m)"
    by (auto simp: Axis_newNegativeScale_def Scale_new_invalid split: option.splits)
qed

lemma Axis_newPositiveScale_nonpositive:
  assumes t: "ticks opts \<le> 0"
  shows "Axis_newPositiveScale niceNum mgr opts \<noteq> Done p"
    and "\<exists>v \<in> set (manager_data mgr). 0 \<le> v \<Longrightarrow>
         \<exists>m. Axis_newPositiveScale niceNum mgr opts = Raised (ConfigError m)"
proof -
  from t have inv: "\<not> validTickCount (ticks opts / 2)" "\<not> validTickCount (ticks opts)"
    by (simp_all add: validTickCount_def)
  show "Axis_newPositiveScale niceNum mgr opts \<noteq> Done p"
    using inv
    by (cases "manager_negativeScale mgr")
       (simp_all add: Axis_newPositiveScale_def Scale_new_invalid split: option.splits)
  assume "\<exists>v \<in> set (manager_data mgr). 0 \<le> v"
  then have "positiveAndZeroValues (manager_data mgr) \<noteq> []"
    by (auto simp: positiveAndZeroValues_def filter_empty_conv)
  from getMinMax_nonempty [OF this] inv
  show "\<exists>m. Axis_newPositiveScale niceNum mgr opts = Raised (ConfigError m)"
    by (cases "manager_negativeScale mgr")
       (auto simp: Axis_newPositiveScale_def Scale_new_invalid split: option.splits)
qed

lemma Axis_build_nonpositive_ticks:
  assumes t: "ticks opts \<le> 0"
  shows "Axis_build niceNum toStr cfg mgr type opts con1 \<noteq> Done r"
    and "type = X_AXIS
         \<or> (type = Y_AXIS \<and> (\<exists>v \<in> set (manager_data mgr). 0 \<le> v)
              \<and> (manager_negativeScale mgr \<longrightarrow> (\<exists>v \<in> set (manager_data mgr). v < 0))) \<Longrightarrow>
         \<exists>m. Axis_build niceNum toStr cfg mgr type opts con1 = Raised (ConfigError m)"
proof -
  from t have invx: "\<not> validTickCount (ticks opts - 1)" by (simp add: validTickCount_def)
  have c: "Axis_computeAxisScale niceNum mgr (Axis_init type opts) \<noteq> Done ax" for ax
  proof (cases type)
    case X_AXIS
    then show ?thesis using invx
      by (simp add: Axis_computeAxisScale_def Axis_init_def Scale_new_invalid andThen_def)
  next
    case Y_AXIS
    then show ?thesis
      using Axis_newNegativeScale_nonpositive(1) [OF t] Axis_newPositiveScale_nonpositive(1) [OF t]
      by (auto simp: Axis_computeAxisScale_def Axis_init_def andThen_Done Let_def)
  next
    case (OtherAxis x)
    then show ?thesis by (simp add: Axis_computeAxisScale_def Axis_init_def)
  qed
  show "Axis_build niceNum toStr cfg mgr type opts con1 \<noteq> Done r"
    using c by (auto simp: Axis_build_def andThen_Done)
  assume a: "type = X_AXIS
         \<or> (type = Y_AXIS \<and> (\<exists>v \<in> set (manager_data mgr). 0 \<le> v)
              \<and> (manager_negativeScale mgr \<longrightarrow> (\<exists>v \<in> set (manager_data mgr). v < 0)))"
  show "\<exists>m. Axis_build niceNum toStr cfg mgr type opts con1 = Raised (ConfigError m)"
  proof (cases "type = X_AXIS")
    case True
    then show ?thesis using invx
      by (simp add: Axis_build_def Axis_computeAxisScale_def Axis_init_def Scale_new_invalid andThen_def)
  next
    case False
    with a have y: "type = Y_AXIS" and p: "\<exists>v \<in> set (manager_data mgr). 0 \<le> v"
      and n: "manager_negativeScale mgr \<longrightarrow> (\<exists>v \<in> set (manager_data mgr). v < 0)" by auto
    from Axis_newPositiveScale_nonpositive(2) [OF t p] obtain m where
      pm: "Axis_newPositiveScale niceNum mgr opts = Raised (ConfigError m)" by blast
    show ?thesis
    proof (cases "manager_negativeScale mgr")
      case True
      with n Axis_newNegativeScale_nonpositive(2) [OF t] obtain m' where
        "Axis_newNegativeScale niceNum mgr opts = Raised (ConfigError m')" by blast
      with y True show ?thesis
        by (simp add: Axis_build_def Axis_computeAxisScale_def Axis_init_def andThen_def)
    next
      case False
      with y pm show ?thesis
        by (simp add: Axis_build_def Axis_computeAxisScale_def Axis_init_def andThen_def)
    qed
  qed
qed

text \<open>
  C7. With a tick count of zero or less the construction of an Axis never returns an
  axis. Unless \<open>bypassOutOfBoundsDrawing\<close> is set the constructor raises an \<open>Error\<close>
  at its assertion. With that flag set the assertion logs a warning, the constructor goes
  on, and the Scale it builds first fails with a \<open>ConfigError\<close>: for every X axis, and
  for every Y axis over data that holds the values its Scales are built from.
\<close>

theorem Axis_constructor_nonpositive_ticks:
  assumes "ticks opts \<le> 0"
  shows "(\<not> bypassOutOfBoundsDrawing cfg \<longrightarrow>
            Axis_constructor niceNum toStr cfg mgr type opts con =
              Raised (Error (''Assertion failed: '' @ typeName type
                               @ '' cannot have zero or negative tick count'')))
       \<and> (bypassOutOfBoundsDrawing cfg \<longrightarrow>
            Axis_constructor niceNum toStr cfg mgr type opts con =
              Axis_build niceNum toStr cfg mgr type opts
                (con @ [''Assertion failed: '' @ typeName type
                          @ '' cannot have zero or negative tick count'']))
       \<and> (\<forall>r. Axis_constructor niceNum toStr cfg mgr type opts con \<noteq> Done r)
       \<and> (bypassOutOfBoundsDrawing cfg
            \<and> (type = X_AXIS
                \<or> (type = Y_AXIS \<and> (\<exists>v \<in> set (manager_data mgr). 0 \<le> v)
                     \<and> (manager_negativeScale mgr \<longrightarrow> (\<exists>v \<in> set (manager_data mgr). v < 0)))) \<longrightarrow>
            (\<exists>m. Axis_constructor niceNum toStr cfg mgr type opts con = Raised (ConfigError m)))"
proof -
  let ?msg = "''Assertion failed: '' @ typeName type @ '' cannot have zero or negative tick count''"
  have a: "\<not> bypassOutOfBoundsDrawing cfg \<Longrightarrow>
             Axis_constructor niceNum toStr cfg mgr type opts con = Raised (Error ?msg)"
    and b: "bypassOutOfBoundsDrawing cfg \<Longrightarrow>
             Axis_constructor niceNum toStr cfg mgr type opts con =
               Axis_build niceNum toStr cfg mgr type opts (con @ [?msg])"
    using assms by (simp_all add: Axis_constructor_def assert_def andThen_def Let_def)
  have nd: "Axis_constructor niceNum toStr cfg mgr type opts con \<noteq> Done r" for r
    using a b Axis_build_nonpositive_ticks(1) [OF assms, of niceNum toStr cfg mgr type "con @ [?msg]" r]
    by (cases "bypassOutOfBoundsDrawing cfg") simp_all
  have ce: "\<exists>m. Axis_constructor niceNum toStr cfg mgr type opts con = Raised (ConfigError m)"
    if "bypassOutOfBoundsDrawing cfg"
      and "type = X_AXIS
           \<or> (type = Y_AXIS \<and> (\<exists>v \<in> set (manager_data mgr). 0 \<le> v)
                \<and> (manager_negativeScale mgr \<longrightarrow> (\<exists>v \<in> set (manager_data mgr). v < 0)))"
    using Axis_build_nonpositive_ticks(2) [OF assms that(2), of niceNum toStr cfg "con @ [?msg]"]
      b [OF that(1)] by simp
  from a b nd ce show ?thesis by blast
qed

theorem Axis_constructor_nonpositive_ticks_witness:
  "ticks zeroTickOptions \<le> 0
   \<and> Axis_constructor niceFixed numToString \<lparr>bypassOutOfBoundsDrawing = False\<rparr> exampleManager X_AXIS
       zeroTickOptions [] =
     Raised (Error ''Assertion failed: x-axis cannot have zero or negative tick count'')
   \<and> Axis_constructor niceFixed numToString \<lparr>bypassOutOfBoundsDrawing = True\<rparr> exampleManager X_AXIS
       zeroTickOptions [] =
     Raised (ConfigError ''tickCount must be an integer greater than zero'')
   \<and> (\<exists>m. Axis_constructor niceFixed numToString \<lparr>bypassOutOfBoundsDrawing = True\<rparr> exampleManager Y_AXIS
          zeroTickOptions [] = Raised (ConfigError m))"
proof -
  have t: "ticks zeroTickOptions \<le> 0" by (simp add: zeroTickOptions_def)
  have d: "\<exists>v \<in> set (manager_data exampleManager). 0 \<le> v"
    "manager_negativeScale exampleManager \<longrightarrow> (\<exists>v \<in> set (manager_data exampleManager). v < 0)"
    by (simp_all add: exampleManager_def)
  have x: "Axis_build niceFixed numToString \<lparr>bypassOutOfBoundsDrawing = True\<rparr> exampleManager X_AXIS
             zeroTickOptions con = Raised (ConfigError ''tickCount must be an integer greater than zero'')"
    for con
    by (simp add: Axis_build_def Axis_computeAxisScale_def Axis_init_def Scale_new_def
          validTickCount_def andThen_def zeroTickOptions_def)
  from Axis_constructor_nonpositive_ticks [OF t, of "\<lparr>bypassOutOfBoundsDrawing = False\<rparr>" niceFixed numToString exampleManager X_AXIS "[]"]
  have 1: "Axis_constructor niceFixed numToString \<lparr>bypassOutOfBoundsDrawing = False\<rparr> exampleManager X_AXIS
       zeroTickOptions [] =
     Raised (Error ''Assertion failed: x-axis cannot have zero or negative tick count'')"
    by simp
  from Axis_constructor_nonpositive_ticks [OF t, of "\<lparr>bypassOutOfBoundsDrawing = True\<rparr>" niceFixed numToString exampleManager X_AXIS "[]"] x
  have 2: "Axis_constructor niceFixed numToString \<lparr>bypassOutOfBoundsDrawing = True\<rparr> exampleManager X_AXIS
       zeroTickOptions [] =
     Raised (ConfigError ''tickCount must be an integer greater than zero'')"
    by simp
  have yb: "bypassOutOfBoundsDrawing \<lparr>bypassOutOfBoundsDrawing = True\<rparr>" by simp
  from Axis_constructor_nonpositive_ticks [OF t, of "\<lparr>bypassOutOfBoundsDrawing = True\<rparr>" niceFixed numToString exampleManager Y_AXIS "[]"] d yb
  have 3: "\<exists>m. Axis_constructor niceFixed numToString \<lparr>bypassOutOfBoundsDrawing = True\<rparr> exampleManager Y_AXIS
          zeroTickOptions [] = Raised (ConfigError m)"
    by blast
  from t 1 2 3 show ?thesis by blast
qed

lemma example_negative_scale:
  "Axis_newNegativeScale niceFixed exampleManager exampleOptions =
     Done \<lparr>scale_min = 0, scale_max = 5, tickCount = 5, isNegativeScale = True,
            scaleStep = 1, roundedMinimum = 0\<rparr>"
  by (simp add: Axis_newNegativeScale_def exampleManager_def exampleOptions_def negativeValues_def
        getMax_def Scale_new_def validTickCount_def Scale_withStep_def niceFixed_def)

lemma example_positive_scale:
  "Axis_newPositiveScale niceFixed exampleManager exampleOptions =
     Done \<lparr>scale_min = 10, scale_max = 20, tickCount = 5, isNegativeScale = False,
            scaleStep = 2, roundedMinimum = 10\<rparr>"
  by (simp add: Axis_newPositiveScale_def exampleManager_def exampleOptions_def positiveAndZeroValues_def
        getMinMax_def Scale_new_def validTickCount_def Scale_withStep_def niceFixed_def)

lemma example_compute:
  "Axis_computeAxisScale niceFixed exampleManager (Axis_init Y_AXIS exampleOptions) =
     Done (exampleYAxis\<lparr>scaleLabels := []\<rparr>)"
  by (simp add: Axis_computeAxisScale_def example_negative_scale example_positive_scale andThen_def
        Axis_init_def exampleYAxis_def Scale_getScaleStep_def Scale_setTickStep_def
        exampleManager_def [THEN arg_cong [of _ _ manager_negativeScale]])

lemma example_labels:
  "Scale_getScaleLabels numToString \<lparr>scale_min = 0, scale_max = 5, tickCount = 5,
      isNegativeScale = True, scaleStep = 2, roundedMinimum = 0\<rparr>
     = [''-10'', ''-8'', ''-6'', ''-4'', ''-2'', ''0'']"
  "Scale_getScaleLabels numToString \<lparr>scale_min = 10, scale_max = 20, tickCount = 5,
      isNegativeScale = False, scaleStep = 2, roundedMinimum = 10\<rparr>
     = [''10'', ''12'', ''14'', ''16'', ''18'', ''20'']"
  by (simp_all add: Scale_getScaleLabels_def Scale_values_def upt_conv_Cons numToString_def showNat_small showNat_big)

lemma example_Y_axis:
  "Axis_constructor niceFixed numToString defaultConfig exampleManager Y_AXIS exampleOptions [] =
     Done ([], exampleYAxis)"
  by (simp add: Axis_constructor_def Axis_build_def assert_def andThen_def example_compute
        Axis_generateScaleNumbers_def exampleYAxis_def example_labels js_index_def
        exampleOptions_def [THEN arg_cong [of _ _ ticks]]
        exampleManager_def [THEN arg_cong [of _ _ manager_negativeScale]])

theorem Axis_steps_synchronised_witness:
  "manager_negativeScale exampleManager
   \<and> Axis_constructor niceFixed numToString defaultConfig exampleManager Y_AXIS exampleOptions [] =
       Done ([], exampleYAxis)
   \<and> (\<exists>p n. positveScale exampleYAxis = Some p \<and> negativeScale exampleYAxis = Some n
          \<and> Scale_getScaleStep p = 2 \<and> Scale_getScaleStep n = 2)"
proof -
  have m: "manager_negativeScale exampleManager" by (simp add: exampleManager_def)
  from Axis_steps_synchronised [OF m example_Y_axis]
  obtain p n p0 n0 where "positveScale exampleYAxis = Some p" "negativeScale exampleYAxis = Some n"
    "Axis_newPositiveScale niceFixed exampleManager exampleOptions = Done p0"
    "Axis_newNegativeScale niceFixed exampleManager exampleOptions = Done n0"
    "Scale_getScaleStep p = Scale_getScaleStep n"
    "Scale_getScaleStep p = max (Scale_getScaleStep p0) (Scale_getScaleStep n0)"
    by blast
  then have "positveScale exampleYAxis = Some p \<and> negativeScale exampleYAxis = Some n
          \<and> Scale_getScaleStep p = 2 \<and> Scale_getScaleStep n = 2"
    by (auto simp: example_positive_scale example_negative_scale Scale_getScaleStep_def)
  with m example_Y_axis show ?thesis by blast
qed

lemma length_Scale_getScaleLabels:
  "length (Scale_getScaleLabels toStr s) = nat (\<lfloor>tickCount s\<rfloor> + 1)"
  by (simp add: Scale_getScaleLabels_def Scale_values_def)

lemma fillRange_Done: "fillRange n = Done r \<Longrightarrow> length r = nat \<lfloor>n\<rfloor>"
  by (auto simp: fillRange_def split: if_splits)

lemma Axis_build_X_length:
  assumes b: "Axis_build niceNum toStr cfg mgr X_AXIS opts con1 = Done (con', ax)"
  shows "\<exists>p. positveScale ax = Some p \<and> tickCount p = ticks opts - 1
           \<and> length (scaleLabels ax) = nat \<lfloor>ticks opts\<rfloor>"
proof -
  from b obtain ax1 where c: "Axis_computeAxisScale niceNum mgr (Axis_init X_AXIS opts) = Done ax1"
    and g: "Axis_generateScaleNumbers toStr cfg mgr ax1 con1 = Done (con', ax)"
    by (auto simp: Axis_build_def andThen_Done)
  from c obtain p where
    p: "Scale_new niceNum \<lparr>opt_min = 0, opt_max = real (manager_maxLen mgr) - 1,
                      opt_tickCount = ticks opts - 1,
                      opt_minimumScaleStep = Some 1,
                      opt_optimiseTicks = optimiseTicks opts,
                      opt_isNegativeScale = False, opt_startAtZero = False\<rparr> = Done p"
    and ax1: "ax1 = (Axis_init X_AXIS opts)\<lparr>positveScale := Some p, axisScaleStep := Scale_getScaleStep p\<rparr>"
    by (auto simp: Axis_computeAxisScale_def Axis_init_def andThen_Done)
  from Scale_new_Done(1) [OF p] have tc: "tickCount p = ticks opts - 1" by simp
  have fl: "nat (\<lfloor>ticks opts - 1\<rfloor> + 1) = nat \<lfloor>ticks opts\<rfloor>" by simp
  from g have "positveScale ax = Some p \<and> length (scaleLabels ax) = nat \<lfloor>ticks opts\<rfloor>"
    unfolding ax1 using tc fl
    by (auto simp: Axis_generateScaleNumbers_def Axis_init_def andThen_Done
          length_Scale_getScaleLabels Scale_getTickCount_def
          split: option.splits if_splits dest!: fillRange_Done)
  with tc show ?thesis by blast
qed

lemma Axis_build_Y_single:
  assumes nneg: "\<not> manager_negativeScale mgr"
    and b: "Axis_build niceNum toStr cfg mgr Y_AXIS opts con1 = Done (con', ax)"
  shows "\<exists>p. positveScale ax = Some p \<and> tickCount p = ticks opts
           \<and> scaleLabels ax = Scale_getScaleLabels toStr p"
proof -
  from b obtain ax1 where c: "Axis_computeAxisScale niceNum mgr (Axis_init Y_AXIS opts) = Done ax1"
    and g: "Axis_generateScaleNumbers toStr cfg mgr ax1 con1 = Done (con', ax)"
    by (auto simp: Axis_build_def andThen_Done)
  from c nneg obtain p where p: "Axis_newPositiveScale niceNum mgr opts = Done p"
    and ax1: "ax1 = (Axis_init Y_AXIS opts)\<lparr>positveScale := Some p,
                        axisScaleStep := Scale_getScaleStep p, start := Some (roundedMinimum p)\<rparr>"
    by (auto simp: Axis_computeAxisScale_def Axis_init_def andThen_Done)
  from Axis_newPositiveScale_Done(1) [OF p] nneg have tc: "tickCount p = ticks opts" by simp
  from g nneg have "positveScale ax = Some p \<and> scaleLabels ax = Scale_getScaleLabels toStr p"
    unfolding ax1 by (auto simp: Axis_generateScaleNumbers_def Axis_init_def)
  with tc show ?thesis by blast
qed

text \<open>
  C3 (as amended). For an integer tick count \<open>ticks > 0\<close>: a constructed X axis, and a
  constructed Y axis without a negative half, has \<open>tickCount + 1\<close> labels, where
  \<open>tickCount\<close> is the tick count of its Scale (\<open>ticks - 1\<close> for X, \<open>ticks\<close> for Y). A
  constructed Y axis with a negative half gives each of its two Scales the tick count
  \<open>ticks / 2\<close> and joins their labels: it has \<open>2 * (floor(ticks / 2) + 1)\<close> labels, less
  one when the shared \<open>"0"\<close> is dropped.
\<close>

theorem Axis_scaleLabels_length:
  assumes c: "Axis_constructor niceNum toStr cfg mgr type opts con = Done (con', ax)"
    and pos: "0 < ticks opts" and int: "ticks opts \<in> \<int>"
  shows "(type = X_AXIS \<longrightarrow>
            (\<exists>p. positveScale ax = Some p \<and> tickCount p = ticks opts - 1
                \<and> real (length (scaleLabels ax)) = tickCount p + 1))
       \<and> (type = Y_AXIS \<and> \<not> manager_negativeScale mgr \<longrightarrow>
            (\<exists>p. positveScale ax = Some p \<and> tickCount p = ticks opts
                \<and> real (length (scaleLabels ax)) = tickCount p + 1))
       \<and> (type = Y_AXIS \<and> manager_negativeScale mgr \<longrightarrow>
            (\<exists>p n. positveScale ax = Some p \<and> negativeScale ax = Some n
                \<and> tickCount p = ticks opts / 2 \<and> tickCount n = ticks opts / 2
                \<and> length (scaleLabels ax) =
                    2 * (nat \<lfloor>ticks opts / 2\<rfloor> + 1)
                    - (if last (Scale_getScaleLabels toStr n) = ''0''
                          \<and> ''0'' \<in> set (Scale_getScaleLabels toStr p) then 1 else 0)))"
proof -
  from c obtain con1 where b: "Axis_build niceNum toStr cfg mgr type opts con1 = Done (con', ax)"
    by (auto simp: Axis_constructor_Done)
  from int obtain k where k: "ticks opts = of_int k" by (auto elim: Ints_cases)
  with pos have kpos: "0 < k" by simp
  have nk: "real (nat \<lfloor>ticks opts\<rfloor>) = ticks opts" using k kpos by simp
  show ?thesis
  proof (intro conjI impI)
    assume "type = X_AXIS"
    with Axis_build_X_length b nk
    show "\<exists>p. positveScale ax = Some p \<and> tickCount p = ticks opts - 1
                \<and> real (length (scaleLabels ax)) = tickCount p + 1"
      by fastforce
  next
    assume a: "type = Y_AXIS \<and> \<not> manager_negativeScale mgr"
    with Axis_build_Y_single b obtain p where p: "positveScale ax = Some p" "tickCount p = ticks opts"
      "scaleLabels ax = Scale_getScaleLabels toStr p" by blast
    have "real (nat (\<lfloor>ticks opts\<rfloor> + 1)) = ticks opts + 1" using k kpos by simp
    with p show "\<exists>p. positveScale ax = Some p \<and> tickCount p = ticks opts
                \<and> real (length (scaleLabels ax)) = tickCount p + 1"
      by (simp add: length_Scale_getScaleLabels)
  next
    assume a: "type = Y_AXIS \<and> manager_negativeScale mgr"
    with b have b': "Axis_build niceNum toStr cfg mgr Y_AXIS opts con1 = Done (con', ax)" by simp
    from Axis_build_Y_split [OF conjunct2 [OF a] b'] obtain p0 n0 where
      p0: "Axis_newPositiveScale niceNum mgr opts = Done p0"
      and n0: "Axis_newNegativeScale niceNum mgr opts = Done n0"
      and ps: "positveScale ax = Some (Scale_setTickStep (axisScaleStep ax) p0)"
      and ns: "negativeScale ax = Some (Scale_setTickStep (axisScaleStep ax) n0)"
      and lb: "scaleLabels ax =
               dedupZero (Scale_getScaleLabels toStr (Scale_setTickStep (axisScaleStep ax) n0))
                         (Scale_getScaleLabels toStr (Scale_setTickStep (axisScaleStep ax) p0))
               @ Scale_getScaleLabels toStr (Scale_setTickStep (axisScaleStep ax) p0)"
      by blast
    let ?p = "Scale_setTickStep (axisScaleStep ax) p0"
    let ?n = "Scale_setTickStep (axisScaleStep ax) n0"
    have tp: "tickCount ?p = ticks opts / 2" and tn: "tickCount ?n = ticks opts / 2"
      using Axis_newPositiveScale_Done(1) [OF p0] Axis_newNegativeScale_Done(1) [OF n0] a
      by (simp_all add: Scale_setTickStep_def)
    have ln: "length (Scale_getScaleLabels toStr ?n) = nat \<lfloor>ticks opts / 2\<rfloor> + 1"
      and lp: "length (Scale_getScaleLabels toStr ?p) = nat \<lfloor>ticks opts / 2\<rfloor> + 1"
    proof -
      from pos have nonneg: "0 \<le> \<lfloor>ticks opts / 2\<rfloor>" by simp
      show "length (Scale_getScaleLabels toStr ?n) = nat \<lfloor>ticks opts / 2\<rfloor> + 1"
        unfolding length_Scale_getScaleLabels tn using nonneg by (simp add: nat_add_distrib)
      show "length (Scale_getScaleLabels toStr ?p) = nat \<lfloor>ticks opts / 2\<rfloor> + 1"
        unfolding length_Scale_getScaleLabels tp using nonneg by (simp add: nat_add_distrib)
    qed
    from ln have ne: "Scale_getScaleLabels toStr ?n \<noteq> []" by auto
    have "length (scaleLabels ax) =
            2 * (nat \<lfloor>ticks opts / 2\<rfloor> + 1)
            - (if last (Scale_getScaleLabels toStr ?n) = ''0''
                  \<and> ''0'' \<in> set (Scale_getScaleLabels toStr ?p) then 1 else 0)"
      unfolding lb using ln lp ne by (simp add: dedupZero_def)
    with ps ns tp tn
    show "\<exists>p n. positveScale ax = Some p \<and> negativeScale ax = Some n
                \<and> tickCount p = ticks opts / 2 \<and> tickCount n = ticks opts / 2
                \<and> length (scaleLabels ax) =
                    2 * (nat \<lfloor>ticks opts / 2\<rfloor> + 1)
                    - (if last (Scale_getScaleLabels toStr n) = ''0''
                          \<and> ''0'' \<in> set (Scale_getScaleLabels toStr p) then 1 else 0)"
      by blast
  qed
qed

text \<open>
  C3 as stated fails on a Y axis with a negative half: over the data \<open>[-5, -3, 10, 20]\<close>
  with 10 ticks the axis has 12 labels, which is neither \<open>10 + 1\<close> nor the \<open>5 + 1\<close> of
  either Scale.
\<close>

theorem Axis_scaleLabels_length_counterexample:
  "Axis_constructor niceFixed numToString defaultConfig exampleManager Y_AXIS exampleOptions [] =
     Done ([], exampleYAxis)
   \<and> length (scaleLabels exampleYAxis) = 12
   \<and> ticks (axisOptions exampleYAxis) + 1 = 11
   \<and> map_option (\<lambda>s. tickCount s + 1) (positveScale exampleYAxis) = Some 6
   \<and> map_option (\<lambda>s. tickCount s + 1) (negativeScale exampleYAxis) = Some 6"
  using example_Y_axis by (simp add: exampleYAxis_def exampleOptions_def)

lemma example_X_axis:
  "Axis_constructor niceFixed numToString defaultConfig exampleManager X_AXIS exampleXOptions [] =
     Done ([], exampleXAxis)"
  by (simp add: Axis_constructor_def Axis_build_def assert_def andThen_def
        Axis_computeAxisScale_def Axis_generateScaleNumbers_def Axis_init_def
        Scale_new_def validTickCount_def Scale_withStep_def Scale_getScaleStep_def Scale_getTickCount_def
        fillRange_def niceFixed_def exampleXAxis_def exampleManager_def exampleXOptions_def
        upt_conv_Cons numToString_def showNat_small)

theorem Axis_scaleLabels_length_witness:
  "Axis_constructor niceFixed numToString defaultConfig exampleManager X_AXIS exampleXOptions [] =
     Done ([], exampleXAxis)
   \<and> 0 < ticks exampleXOptions \<and> ticks exampleXOptions \<in> \<int>
   \<and> (\<exists>p. positveScale exampleXAxis = Some p \<and> tickCount p = 3
          \<and> real (length (scaleLabels exampleXAxis)) = tickCount p + 1)"
proof -
  have pos: "0 < ticks exampleXOptions" and int: "ticks exampleXOptions \<in> \<int>"
    by (simp_all add: exampleXOptions_def)
  from Axis_scaleLabels_length [OF example_X_axis pos int]
  have "\<exists>p. positveScale exampleXAxis = Some p \<and> tickCount p = ticks exampleXOptions - 1
          \<and> real (length (scaleLabels exampleXAxis)) = tickCount p + 1"
    by blast
  then have "\<exists>p. positveScale exampleXAxis = Some p \<and> tickCount p = 3
          \<and> real (length (scaleLabels exampleXAxis)) = tickCount p + 1"
    by (simp add: exampleXOptions_def)
  with example_X_axis pos int show ?thesis by blast
qed

lemma count_list_map: "count_list (map f xs) y = length (filter (\<lambda>x. f x = y) xs)"
  by (induction xs) auto

lemma filter_at_most_one:
  "distinct xs \<Longrightarrow> (\<And>a b. P a \<Longrightarrow> P b \<Longrightarrow> a = b) \<Longrightarrow> length (filter P xs) \<le> 1"
proof (induction xs)
  case Nil
  then show ?case by simp
next
  case (Cons x xs)
  show ?case
  proof (cases "P x")
    case True
    have "filter P xs = []"
    proof (rule ccontr)
      assume "filter P xs \<noteq> []"
      then obtain y where "y \<in> set xs" "P y" by (auto simp: filter_empty_conv)
      with True Cons.prems(2) have "x = y" by blast
      with \<open>y \<in> set xs\<close> Cons.prems(1) show False by simp
    qed
    with True show ?thesis by simp
  next
    case False
    with Cons show ?thesis by simp
  qed
qed

lemma positive_labels_one_zero:
  assumes z: "\<forall>v. toStr v = ''0'' \<longleftrightarrow> v = (0::real)" and st: "scaleStep s \<noteq> 0"
    and nn: "\<not> isNegativeScale s"
  shows "count_list (Scale_getScaleLabels toStr s) ''0'' \<le> 1"
proof -
  have "Scale_getScaleLabels toStr s =
          map (\<lambda>i. toStr (roundedMinimum s + real i * scaleStep s)) [0 ..< nat (\<lfloor>tickCount s\<rfloor> + 1)]"
    using nn by (simp add: Scale_getScaleLabels_def Scale_values_def comp_def)
  moreover have "length (filter (\<lambda>i. toStr (roundedMinimum s + real i * scaleStep s) = ''0'')
                   [0 ..< nat (\<lfloor>tickCount s\<rfloor> + 1)]) \<le> 1"
  proof (rule filter_at_most_one)
    show "distinct [0 ..< nat (\<lfloor>tickCount s\<rfloor> + 1)]" by simp
  next
    fix a b :: nat
    assume "toStr (roundedMinimum s + real a * scaleStep s) = ''0''"
      and "toStr (roundedMinimum s + real b * scaleStep s) = ''0''"
    with z have "roundedMinimum s + real a * scaleStep s = 0"
      "roundedMinimum s + real b * scaleStep s = 0" by simp_all
    then have "real a * scaleStep s = real b * scaleStep s" by linarith
    with st show "a = b" by simp
  qed
  ultimately show ?thesis by (simp add: count_list_map)
qed

lemma negative_labels_shape:
  assumes neg: "isNegativeScale s" and rm: "roundedMinimum s = 0"
  shows "Scale_getScaleLabels toStr s =
           map (\<lambda>i. toStr (- (real i * scaleStep s))) (rev [0 ..< nat (\<lfloor>tickCount s\<rfloor> + 1)])"
  using neg rm by (simp add: Scale_getScaleLabels_def Scale_values_def rev_map comp_def)

lemma negative_labels_zero_last:
  assumes z: "\<forall>v. toStr v = ''0'' \<longleftrightarrow> v = (0::real)" and st: "scaleStep s \<noteq> 0"
    and neg: "isNegativeScale s" and rm: "roundedMinimum s = 0"
  shows "''0'' \<notin> set (butlast (Scale_getScaleLabels toStr s))"
    and "Scale_getScaleLabels toStr s \<noteq> [] \<Longrightarrow> last (Scale_getScaleLabels toStr s) = ''0''"
proof -
  define k where "k = nat (\<lfloor>tickCount s\<rfloor> + 1)"
  define g where "g = (\<lambda>i. toStr (- (real i * scaleStep s)))"
  have shape: "Scale_getScaleLabels toStr s = map g (rev [0 ..< k])"
    unfolding k_def g_def by (rule negative_labels_shape [OF neg rm])
  have g0: "g 0 = ''0''" using z by (simp add: g_def)
  have gpos: "g i \<noteq> ''0''" if "0 < i" for i
  proof -
    from that st have "- (real i * scaleStep s) \<noteq> 0" by simp
    with z show ?thesis unfolding g_def by blast
  qed
  have split: "map g (rev [0 ..< k]) = map g (rev [Suc 0 ..< k]) @ [g 0]" if "k \<noteq> 0"
  proof -
    from that have "0 < k" by simp
    then have "[0 ..< k] = 0 # [Suc 0 ..< k]" by (rule upt_conv_Cons)
    then show ?thesis by (simp only: rev.simps map_append list.map)
  qed
  have tail: "''0'' \<notin> set (map g (rev [Suc 0 ..< k]))"
  proof
    assume "''0'' \<in> set (map g (rev [Suc 0 ..< k]))"
    then obtain i where "i \<in> set [Suc 0 ..< k]" "g i = ''0''" by (auto simp only: set_map set_rev)
    then have "0 < i" by (simp del: upt_Suc)
    with gpos \<open>g i = ''0''\<close> show False by blast
  qed
  show "''0'' \<notin> set (butlast (Scale_getScaleLabels toStr s))"
  proof (cases "k = 0")
    case True
    then show ?thesis unfolding shape by simp
  next
    case False
    from split [OF False] have "butlast (map g (rev [0 ..< k])) = map g (rev [Suc 0 ..< k])"
      by (simp only: butlast_snoc)
    with tail show ?thesis unfolding shape by (simp only: not_False_eq_True)
  qed
  show "last (Scale_getScaleLabels toStr s) = ''0''" if "Scale_getScaleLabels toStr s \<noteq> []"
  proof (cases "k = 0")
    case True
    with that show ?thesis unfolding shape by simp
  next
    case False
    from split [OF False] have "last (map g (rev [0 ..< k])) = g 0"
      by (simp only: last_snoc)
    with g0 show ?thesis unfolding shape by (simp only:)
  qed
qed

lemma dedupZero_single_zero:
  assumes b: "''0'' \<notin> set (butlast neg)" and l: "neg \<noteq> [] \<Longrightarrow> last neg = ''0''"
    and p: "count_list pos ''0'' \<le> 1"
  shows "count_list (dedupZero neg pos @ pos) ''0'' \<le> 1"
proof (cases "neg = []")
  case True
  with p show ?thesis by (simp add: dedupZero_def)
next
  case False
  with l have last: "last neg = ''0''" by simp
  from False have split: "neg = butlast neg @ [''0'']"
    using last append_butlast_last_id [of neg] by simp
  show ?thesis
  proof (cases "''0'' \<in> set pos")
    case True
    with False last have "dedupZero neg pos = butlast neg" by (simp add: dedupZero_def)
    with b p show ?thesis by simp
  next
    case False
    then have d: "dedupZero neg pos = neg" by (simp add: dedupZero_def)
    have "count_list neg ''0'' = 1"
      by (subst split) (simp add: b)
    with d False show ?thesis by simp
  qed
qed

text \<open>
  C6. A constructed Y axis with a negative and a positive Scale has as its labels the
  negative Scale's labels, which are the multiples \<open>-i * step\<close> with \<open>i\<close> running down to
  zero, followed by the positive Scale's labels, the last negative label being dropped when
  it is \<open>"0"\<close> and the positive labels hold a \<open>"0"\<close>; the joined list holds \<open>"0"\<close> at
  most once. The number-to-string conversion is assumed to give \<open>"0"\<close> for zero only.
\<close>

theorem Axis_labels_single_zero:
  assumes neg: "manager_negativeScale mgr"
    and c: "Axis_constructor niceNum toStr cfg mgr Y_AXIS opts con = Done (con', ax)"
    and z: "\<forall>v. toStr v = ''0'' \<longleftrightarrow> v = (0::real)"
  shows "\<exists>p n. positveScale ax = Some p \<and> negativeScale ax = Some n
           \<and> Scale_getScaleLabels toStr n =
               map (\<lambda>i. toStr (- (real i * axisScaleStep ax)))
                   (rev [0 ..< nat (\<lfloor>ticks opts / 2\<rfloor> + 1)])
           \<and> scaleLabels ax =
               dedupZero (Scale_getScaleLabels toStr n) (Scale_getScaleLabels toStr p)
               @ Scale_getScaleLabels toStr p
           \<and> count_list (scaleLabels ax) ''0'' \<le> 1"
proof -
  from c obtain con1 where b: "Axis_build niceNum toStr cfg mgr Y_AXIS opts con1 = Done (con', ax)"
    by (auto simp: Axis_constructor_Done)
  from Axis_build_Y_split [OF neg b] obtain p0 n0 where
    p0: "Axis_newPositiveScale niceNum mgr opts = Done p0"
    and n0: "Axis_newNegativeScale niceNum mgr opts = Done n0"
    and st: "axisScaleStep ax = max (Scale_getScaleStep p0) (Scale_getScaleStep n0)"
    and ps: "positveScale ax = Some (Scale_setTickStep (axisScaleStep ax) p0)"
    and ns: "negativeScale ax = Some (Scale_setTickStep (axisScaleStep ax) n0)"
    and lb: "scaleLabels ax =
             dedupZero (Scale_getScaleLabels toStr (Scale_setTickStep (axisScaleStep ax) n0))
                       (Scale_getScaleLabels toStr (Scale_setTickStep (axisScaleStep ax) p0))
             @ Scale_getScaleLabels toStr (Scale_setTickStep (axisScaleStep ax) p0)"
    by blast
  let ?p = "Scale_setTickStep (axisScaleStep ax) p0"
  let ?n = "Scale_setTickStep (axisScaleStep ax) n0"
  have nz: "axisScaleStep ax \<noteq> 0"
    using Axis_newPositiveScale_Done(3) [OF p0] Axis_newNegativeScale_Done(4) [OF n0]
    unfolding st Scale_getScaleStep_def by (simp add: max_def)
  have pn: "\<not> isNegativeScale ?p" "scaleStep ?p \<noteq> 0"
    using Axis_newPositiveScale_Done(2) [OF p0] nz by (simp_all add: Scale_setTickStep_def)
  have nn: "isNegativeScale ?n" "roundedMinimum ?n = 0" "scaleStep ?n \<noteq> 0"
    "tickCount ?n = ticks opts / 2" "scaleStep ?n = axisScaleStep ax"
    using Axis_newNegativeScale_Done [OF n0] nz by (simp_all add: Scale_setTickStep_def)
  have shape: "Scale_getScaleLabels toStr ?n =
               map (\<lambda>i. toStr (- (real i * axisScaleStep ax)))
                   (rev [0 ..< nat (\<lfloor>ticks opts / 2\<rfloor> + 1)])"
    using negative_labels_shape [OF nn(1) nn(2), of toStr] unfolding nn(4) nn(5) .
  have cnt: "count_list (scaleLabels ax) ''0'' \<le> 1"
    unfolding lb
    by (rule dedupZero_single_zero
          [OF negative_labels_zero_last(1) [OF z nn(3) nn(1) nn(2)]
              negative_labels_zero_last(2) [OF z nn(3) nn(1) nn(2)]
              positive_labels_one_zero [OF z pn(2) pn(1)]])
  from ps ns shape lb cnt show ?thesis by blast
qed


lemma showNat_nonempty: "showNat n \<noteq> []"
  by (cases "n < 10") (simp_all add: showNat_small showNat_big)

lemma showNat_zero: "showNat n = ''0'' \<longleftrightarrow> n = 0"
proof (cases "n < 10")
  case True
  have "\<forall>d \<in> set [0 ..< 10]. (''0123456789'' ! d = CHR ''0'') = (d = 0)"
    by (simp add: upt_conv_Cons)
  with True show ?thesis by (simp add: showNat_small)
next
  case False
  then have n0: "n \<noteq> 0" by simp
  obtain c cs where "showNat (n div 10) = c # cs"
    using showNat_nonempty [of "n div 10"] by (cases "showNat (n div 10)") simp_all
  then have "length (showNat n) = Suc (Suc (length cs))"
    using False by (simp add: showNat_big)
  then have "showNat n \<noteq> ''0''" by auto
  with n0 show ?thesis by simp
qed

lemma numToString_zero: "numToString v = ''0'' \<longleftrightarrow> v = 0"
proof
  assume "v = 0"
  then show "numToString v = ''0''" by (simp add: numToString_def showNat_small)
next
  assume a: "numToString v = ''0''"
  show "v = 0"
  proof (cases "v < 0")
    case True
    with a show ?thesis by (simp add: numToString_def)
  next
    case False
    have fr: "frac \<bar>v\<bar> = 0"
    proof (rule ccontr)
      assume "frac \<bar>v\<bar> \<noteq> 0"
      with a False have "showNat (nat \<lfloor>\<bar>v\<bar>\<rfloor>) @ ''.'' @ fracDigits 17 (frac \<bar>v\<bar>) = ''0''"
        by (simp add: numToString_def)
      then show False using showNat_nonempty [of "nat \<lfloor>\<bar>v\<bar>\<rfloor>"]
        by (cases "showNat (nat \<lfloor>\<bar>v\<bar>\<rfloor>)") simp_all
    qed
    with a False have "showNat (nat \<lfloor>\<bar>v\<bar>\<rfloor>) = ''0''" by (simp add: numToString_def)
    then have "nat \<lfloor>\<bar>v\<bar>\<rfloor> = 0" by (simp add: showNat_zero)
    moreover from fr have "\<bar>v\<bar> = of_int \<lfloor>\<bar>v\<bar>\<rfloor>" by (simp add: frac_def)
    ultimately have "\<bar>v\<bar> \<le> 0"
      by (metis abs_ge_zero abs_le_zero_iff le_of_int_ceiling nat_0_iff of_int_0_le_iff of_int_le_0_iff order.trans zero_le_floor)
    then show ?thesis by simp
  qed
qed

theorem Axis_labels_single_zero_witness:
  "manager_negativeScale exampleManager
   \<and> Axis_constructor niceFixed numToString defaultConfig exampleManager Y_AXIS exampleOptions [] =
       Done ([], exampleYAxis)
   \<and> (\<forall>v. numToString v = ''0'' \<longleftrightarrow> v = 0)
   \<and> scaleLabels exampleYAxis =
       [''-10'', ''-8'', ''-6'', ''-4'', ''-2'', ''0'', ''10'', ''12'', ''14'', ''16'', ''18'', ''20'']
   \<and> count_list (scaleLabels exampleYAxis) ''0'' \<le> 1"
proof -
  have m: "manager_negativeScale exampleManager" by (simp add: exampleManager_def)
  have z: "\<forall>v. numToString v = ''0'' \<longleftrightarrow> v = 0" by (simp add: numToString_zero)
  from Axis_labels_single_zero [OF m example_Y_axis z]
  have "count_list (scaleLabels exampleYAxis) ''0'' \<le> 1" by blast
  moreover have "scaleLabels exampleYAxis =
       [''-10'', ''-8'', ''-6'', ''-4'', ''-2'', ''0'', ''10'', ''12'', ''14'', ''16'', ''18'', ''20'']"
    by (simp add: exampleYAxis_def)
  ultimately show ?thesis using m z example_Y_axis by blast
qed

section \<open>Properties of the grid geometry\<close>

text \<open>
  C4. With \<open>grid.strict\<close> enabled, the grid geometry computed by the constructor sets
  both \<open>gridRectSize.x\<close> and \<open>gridRectSize.y\<close> to the smaller of the two raw sizes
  (raw \<open>{x: 12.3, y: 9.7}\<close> gives 9.7 for both), and the draw pass keeps the two equal,
  however its arithmetic rounds.
\<close>

theorem strict_grid_square:
  assumes s: "strict (grid g)" and raw: "rawGridRectSize g = Done r"
  shows "\<exists>g'. BasicGraph_constructGrid g = Done g'
           \<and> grid_x (graphGridRectSize g') = min (grid_x r) (grid_y r)
           \<and> grid_y (graphGridRectSize g') = min (grid_x r) (grid_y r)
           \<and> grid_x (graphGridRectSize (BasicGraph_drawGeometry fl g'))
               = grid_y (graphGridRectSize (BasicGraph_drawGeometry fl g'))"
proof -
  let ?m = "min (grid_x r) (grid_y r)"
  let ?p = "graphPadding g"
  let ?g2 = "g\<lparr>xLength := width (graphCanvas g) - (right ?p + left ?p + labelFontSize g),
                yLength := height (graphCanvas g) - (top_padding ?p + bottom ?p),
                graphGridRectSize := \<lparr>grid_x = ?m, grid_y = ?m\<rparr>\<rparr>"
  have c: "BasicGraph_constructGrid g = Done (calculateLengths ?g2)"
    using s raw by (simp add: BasicGraph_constructGrid_def andThen_def Let_def)
  have r: "graphGridRectSize (calculateLengths ?g2) = \<lparr>grid_x = ?m, grid_y = ?m\<rparr>"
    and st: "strict (grid (calculateLengths ?g2))"
    using s by (simp_all add: calculateLengths_def Let_def)
  have d: "grid_x (graphGridRectSize (BasicGraph_drawGeometry fl (calculateLengths ?g2)))
           = grid_y (graphGridRectSize (BasicGraph_drawGeometry fl (calculateLengths ?g2)))"
    unfolding BasicGraph_drawGeometry_def Let_def using r st
    by (simp add: calculateLengths_def Let_def)
  from c r d show ?thesis by simp
qed

theorem strict_grid_square_witness:
  "strict (grid exampleGraph)
   \<and> rawGridRectSize exampleGraph = Done \<lparr>grid_x = 12.3, grid_y = 9.7\<rparr>
   \<and> (\<exists>g'. BasicGraph_constructGrid exampleGraph = Done g'
          \<and> grid_x (graphGridRectSize g') = 9.7 \<and> grid_y (graphGridRectSize g') = 9.7)"
proof -
  have s: "strict (grid exampleGraph)" by (simp add: exampleGraph_def)
  have raw: "rawGridRectSize exampleGraph = Done \<lparr>grid_x = 12.3, grid_y = 9.7\<rparr>"
    by (simp add: rawGridRectSize_def exampleGraph_def)
  from strict_grid_square [OF s raw]
  have "\<exists>g'. BasicGraph_constructGrid exampleGraph = Done g'
          \<and> grid_x (graphGridRectSize g') = 9.7 \<and> grid_y (graphGridRectSize g') = 9.7"
    by auto
  with s raw show ?thesis by blast
qed

lemma round_up_is_ceiling:
  fixes x :: real
  assumes "of_int (round x) > x"
  shows "round x = \<lceil>x\<rceil>" "round x - 1 = \<lfloor>x\<rfloor>"
proof -
  have le: "of_int (round x) \<le> x + 1 / 2" by (rule of_int_round_le)
  from assms le have "\<lceil>x\<rceil> \<le> round x" by (simp add: ceiling_le_iff less_imp_le)
  moreover from le have "of_int (round x) < x + 1" by linarith
  then have "round x \<le> \<lceil>x\<rceil>" by linarith
  ultimately show c: "round x = \<lceil>x\<rceil>" by simp
  have "x \<noteq> of_int \<lfloor>x\<rfloor>"
  proof
    assume e: "x = of_int \<lfloor>x\<rfloor>"
    then have "round x = \<lfloor>x\<rfloor>" by (metis round_of_int)
    with e assms show False by simp
  qed
  then have "\<lceil>x\<rceil> = \<lfloor>x\<rfloor> + 1" by (simp add: ceiling_altdef)
  with c show "round x - 1 = \<lfloor>x\<rfloor>" by simp
qed

text \<open>
  C5. With \<open>grid.optimiseSquareSize\<close> enabled and a fractional \<open>gridRectSize.x\<close>, the
  draw pass sets \<open>gridRectSize.x\<close> to the nearest integer, except that a round-up is
  taken only when \<open>rightPadding - (rounded - raw) * numberOfSquares\<close>, as the code
  computes it, is not negative; otherwise the size is rounded down. (\<open>numberOfSquares\<close>
  is the number of X labels less one; \<open>fl\<close> is the rounding of each operation.)
\<close>

theorem optimise_square_size_rounding:
  assumes o: "optimiseSquareSize (grid g)" and f: "frac (grid_x (graphGridRectSize g)) \<noteq> 0"
  shows "grid_x (graphGridRectSize (BasicGraph_drawGeometry fl g)) =
           (if of_int (round (grid_x (graphGridRectSize g))) > grid_x (graphGridRectSize g)
               \<and> fl (right (graphPadding g)
                       - fl (fl (of_int (round (grid_x (graphGridRectSize g)))
                                  - grid_x (graphGridRectSize g))
                             * (real (xLabelCount g) - 1))) < 0
            then of_int \<lfloor>grid_x (graphGridRectSize g)\<rfloor>
            else of_int (round (grid_x (graphGridRectSize g))))
       \<and> \<bar>of_int (round (grid_x (graphGridRectSize g))) - grid_x (graphGridRectSize g)\<bar> \<le> 1 / 2
       \<and> (of_int (round (grid_x (graphGridRectSize g))) > grid_x (graphGridRectSize g) \<longrightarrow>
            round (grid_x (graphGridRectSize g)) = \<lceil>grid_x (graphGridRectSize g)\<rceil>)
       \<and> (\<not> of_int (round (grid_x (graphGridRectSize g))) > grid_x (graphGridRectSize g) \<longrightarrow>
            round (grid_x (graphGridRectSize g)) = \<lfloor>grid_x (graphGridRectSize g)\<rfloor>)"
proof -
  define x0 where "x0 = grid_x (graphGridRectSize g)"
  have down: "of_int (round x0) - 1 = (of_int \<lfloor>x0\<rfloor> :: real)" if "of_int (round x0) > x0"
    using round_up_is_ceiling(2) [OF that] by (metis of_int_1 of_int_diff)
  have val: "grid_x (graphGridRectSize (BasicGraph_drawGeometry fl g)) =
           (if of_int (round x0) > x0
               \<and> fl (right (graphPadding g) - fl (fl (of_int (round x0) - x0) * (real (xLabelCount g) - 1))) < 0
            then of_int \<lfloor>x0\<rfloor> else of_int (round x0))"
    using o f down unfolding x0_def [symmetric]
    by (simp add: BasicGraph_drawGeometry_def calculateLengths_def Let_def x0_def [symmetric])
  have near: "\<bar>of_int (round x0) - x0\<bar> \<le> 1 / 2"
    using of_int_round_abs_le [of x0] by simp
  have lo: "round x0 = \<lfloor>x0\<rfloor>" if "\<not> of_int (round x0) > x0"
  proof -
    from that have "round x0 \<le> \<lfloor>x0\<rfloor>" by (simp add: le_floor_iff)
    moreover have "\<lfloor>x0\<rfloor> \<le> round x0" by (simp add: round_def floor_mono)
    ultimately show ?thesis by simp
  qed
  from val near lo round_up_is_ceiling(1) [of x0] show ?thesis unfolding x0_def by blast
qed

lemma tightGraph_constructed: "BasicGraph_constructGrid tightGraphInput = Done tightGraph"
  by (simp add: BasicGraph_constructGrid_def rawGridRectSize_def calculateLengths_def andThen_def
        tightGraph_def tightGraphInput_def exampleGraph_def Let_def)

theorem optimise_square_size_rounding_witness:
  "BasicGraph_constructGrid tightGraphInput = Done tightGraph
   \<and> optimiseSquareSize (grid tightGraph) \<and> frac (grid_x (graphGridRectSize tightGraph)) \<noteq> 0
   \<and> grid_x (graphGridRectSize tightGraph) = 9.75
   \<and> right (graphPadding tightGraph) = 1
   \<and> xLabelCount tightGraph = 9
   \<and> grid_x (graphGridRectSize (BasicGraph_drawGeometry exactRounding tightGraph)) = 9"
proof -
  have x: "grid_x (graphGridRectSize tightGraph) = 9.75" and r: "right (graphPadding tightGraph) = 1"
    and n: "xLabelCount tightGraph = 9"
    by (simp_all add: tightGraph_def tightGraphInput_def exampleGraph_def)
  have o: "optimiseSquareSize (grid tightGraph)"
    by (simp add: tightGraph_def tightGraphInput_def exampleGraph_def)
  have f: "frac (grid_x (graphGridRectSize tightGraph)) \<noteq> 0"
    unfolding x by (simp add: frac_def)
  have rd: "round (9.75 :: real) = 10" by (simp add: round_def)
  have fx: "\<lfloor>9.75 :: real\<rfloor> = 9" by simp
  from optimise_square_size_rounding [OF o f, of exactRounding]
  have "grid_x (graphGridRectSize (BasicGraph_drawGeometry exactRounding tightGraph)) = 9"
    unfolding x r n rd fx by (simp add: exactRounding_def)
  with tightGraph_constructed o f x r n show ?thesis by blast
qed

section \<open>Properties of the legend layout\<close>

lemma legendGraph_fields:
  "labelFontSize legendGraph = 12" "legendPosition legendGraph = Some ''top''"
  "legendAlignment legendGraph = Some ''start''" "titleDraw legendGraph"
  "titleFontSize legendGraph = 24" "textPadding (graphPadding legendGraph) = 4"
  "x_begin (graphLengths legendGraph) = 72" "\<not> debug legendGraph"
  by (simp_all add: legendGraph_def calculateLengths_def exampleGraph_def Let_def)

lemma example_legend_constructor:
  "LegendManager_constructor monoWidth defaultConfig legendGraph (Some exampleItems) [] =
     Done ([], exampleLegend)"
  by (simp add: LegendManager_constructor_def assert_def andThen_def legendGraph_fields
        Pos_values_def Alignment_values_def exampleLegend_def PADDING_def Let_def)

lemma example_requiredSpaces:
  "LegendManager_requiredSpaces monoWidth exampleLegend ''horizontal'' exampleItems = [47, 46]"
  by (simp add: LegendManager_requiredSpaces_def exampleLegend_def exampleItems_def
        getRequiredSpaceFor_def PADDING_def monoWidth_def upt_conv_Cons)

lemma example_legend_draw:
  "map_outcome snd
     (LegendManager_draw monoWidth defaultConfig graphDrawer examplePalette legendGraph exampleLegend emptyWorld)
   = Done (165, 36)"
proof -
  have o: "LegendManager_orientation legendGraph exampleLegend = Some (''horizontal'', 72, 36)"
    by (simp add: LegendManager_orientation_def legendGraph_fields exampleLegend_def PADDING_def)
  have a: "LegendManager_align legendGraph exampleLegend ''horizontal'' [47, 46] (72, 36) = (72, 36)"
    by (simp add: LegendManager_align_def exampleLegend_def)
  have b: "LegendManager_debugBox examplePalette legendGraph exampleLegend ''horizontal'' [47, 46] (72, 36) emptyWorld
           = emptyWorld"
    by (simp add: LegendManager_debugBox_def legendGraph_fields)
  have ok: "Drawer_coordinateSafetyCheck defaultConfig graphDrawer x y con = Done con"
    if "0 \<le> x" "x \<le> 200" "0 \<le> y" "y \<le> 150" for x y con
    using that by (simp add: Drawer_coordinateSafetyCheck_def assert_def andThen_def graphDrawer_def)
  have e: "map_outcome snd (LegendManager_drawEntries defaultConfig graphDrawer examplePalette legendGraph
             exampleLegend ''horizontal'' (zip exampleItems [47, 46]) (72, 36) emptyWorld) = Done (165, 36)"
    by (simp add: exampleItems_def LegendManager_drawLegend_def Drawer_text_def ok andThen_def
          exampleLegend_def PADDING_def Let_def emit_def emptyWorld_def Drawer_toTextMode_def)
  have d: "legend_data exampleLegend = Some exampleItems" by (simp add: exampleLegend_def)
  show ?thesis
    by (simp add: LegendManager_draw_def o d example_requiredSpaces a b e Let_def)
qed

lemma drawEntries_offsets:
  "LegendManager_drawEntries cfg d pal g lm orientation pairs (xB, yB) w = Done (w', xE, yE) \<Longrightarrow>
     (orientation = ''horizontal'' \<longrightarrow> xE = xB + sum_list (map snd pairs) \<and> yE = yB)
   \<and> (orientation \<noteq> ''horizontal'' \<longrightarrow> xE = xB \<and> yE = yB + sum_list (map snd pairs))"
proof (induction pairs arbitrary: xB yB w)
  case Nil
  then show ?case by simp
next
  case (Cons p pairs)
  obtain item space where p: "p = (item, space)" by (cases p)
  from Cons.prems obtain w1 where
    r: "(if orientation = ''horizontal''
         then LegendManager_drawEntries cfg d pal g lm orientation pairs (xB + space, yB) w1
         else LegendManager_drawEntries cfg d pal g lm orientation pairs (xB, yB + space) w1)
        = Done (w', xE, yE)"
    unfolding p by (auto simp: andThen_Done)
  show ?case
  proof (cases "orientation = ''horizontal''")
    case True
    with r Cons.IH [of "xB + space" yB w1] show ?thesis unfolding p by simp
  next
    case False
    with r Cons.IH [of xB "yB + space" w1] show ?thesis unfolding p by simp
  qed
qed

text \<open>
  C9 (as amended). For a legend laid out horizontally (position top or bottom) whose draw
  pass returns, the offset accumulated over the entries, from the aligned start to the
  value after the last entry, equals the sum of the list \<open>requiredSpaces\<close> that the draw
  pass computes once before it places any entry. The field \<open>requiredSpace\<close> that the
  padding calculation uses is \<open>boxSize + PADDING\<close>, the height of the row.
\<close>

theorem legend_offsets_sum:
  assumes c: "LegendManager_constructor measureText cfg g (Some items) con = Done (con', lm)"
    and h: "legend_position lm = ''top'' \<or> legend_position lm = ''bottom''"
    and dr: "LegendManager_draw measureText cfg d pal g lm w = Done (w', xEnd, yEnd)"
  shows "\<exists>xBegin yBegin.
           LegendManager_orientation g lm = Some (''horizontal'', xBegin, yBegin)
         \<and> xEnd - fst (LegendManager_align g lm ''horizontal''
                          (LegendManager_requiredSpaces measureText lm ''horizontal'' items)
                          (xBegin, yBegin))
             = arrays_sum (LegendManager_requiredSpaces measureText lm ''horizontal'' items)
         \<and> requiredSpace lm = boxSize lm + PADDING"
proof -
  from c have dat: "legend_data lm = Some items"
    by (auto simp: LegendManager_constructor_def andThen_Done Let_def split: if_splits)
  from c h have rs: "requiredSpace lm = boxSize lm + PADDING"
    by (auto simp: LegendManager_constructor_def andThen_Done Let_def split: if_splits)
  from h obtain xBegin yBegin where o: "LegendManager_orientation g lm = Some (''horizontal'', xBegin, yBegin)"
    by (auto simp: LegendManager_orientation_def Let_def)
  let ?rs = "LegendManager_requiredSpaces measureText lm ''horizontal'' items"
  let ?b = "LegendManager_align g lm ''horizontal'' ?rs (xBegin, yBegin)"
  from dr o dat have e: "LegendManager_drawEntries cfg d pal g lm ''horizontal'' (zip items ?rs)
                           (fst ?b, snd ?b)
                           (LegendManager_debugBox pal g lm ''horizontal'' ?rs ?b w) = Done (w', xEnd, yEnd)"
    by (simp add: LegendManager_draw_def Let_def)
  have len: "length ?rs = length items" by (simp add: LegendManager_requiredSpaces_def)
  from drawEntries_offsets [OF e] have "xEnd = fst ?b + sum_list (map snd (zip items ?rs))" by simp
  with len have "xEnd - fst ?b = arrays_sum ?rs" by (simp add: arrays_sum_def)
  with o rs show ?thesis by blast
qed

text \<open>
  C9 as stated fails: for the two entries \<open>A\<close> and \<open>BB\<close> at the top the field
  \<open>requiredSpace\<close> is 24 while the entries advance the offset by 93.
\<close>

theorem legend_requiredSpace_counterexample:
  "LegendManager_constructor monoWidth defaultConfig legendGraph (Some exampleItems) [] =
     Done ([], exampleLegend)
   \<and> requiredSpace exampleLegend = 24
   \<and> LegendManager_orientation legendGraph exampleLegend = Some (''horizontal'', 72, 36)
   \<and> map_outcome snd
       (LegendManager_draw monoWidth defaultConfig graphDrawer examplePalette legendGraph exampleLegend emptyWorld)
     = Done (72 + 93, 36)
   \<and> requiredSpace exampleLegend \<noteq> (72 + 93) - 72"
  using example_legend_constructor example_legend_draw
  by (simp add: exampleLegend_def LegendManager_orientation_def legendGraph_fields PADDING_def)

theorem legend_offsets_sum_witness:
  "LegendManager_constructor monoWidth defaultConfig legendGraph (Some exampleItems) [] =
     Done ([], exampleLegend)
   \<and> (legend_position exampleLegend = ''top'' \<or> legend_position exampleLegend = ''bottom'')
   \<and> (\<exists>w'. LegendManager_draw monoWidth defaultConfig graphDrawer examplePalette legendGraph exampleLegend emptyWorld
          = Done (w', 165, 36))
   \<and> arrays_sum (LegendManager_requiredSpaces monoWidth exampleLegend ''horizontal'' exampleItems) = 93
   \<and> requiredSpace exampleLegend = boxSize exampleLegend + PADDING"
proof -
  have h: "legend_position exampleLegend = ''top'' \<or> legend_position exampleLegend = ''bottom''"
    by (simp add: exampleLegend_def)
  from example_legend_draw obtain w' where
    dr: "LegendManager_draw monoWidth defaultConfig graphDrawer examplePalette legendGraph exampleLegend emptyWorld
          = Done (w', 165, 36)"
    by (cases "LegendManager_draw monoWidth defaultConfig graphDrawer examplePalette legendGraph exampleLegend emptyWorld")
       auto
  from legend_offsets_sum [OF example_legend_constructor h dr]
  have "requiredSpace exampleLegend = boxSize exampleLegend + PADDING" by blast
  moreover have "arrays_sum (LegendManager_requiredSpaces monoWidth exampleLegend ''horizontal'' exampleItems) = 93"
    by (simp add: example_requiredSpaces arrays_sum_def)
  ultimately show ?thesis using example_legend_constructor h dr by blast
qed

end
